theory Spec2Isabelle
  imports Complex_Main
begin

section \<open>JavaScript values, strings and errors\<close>

text \<open>
  The server (\<^verbatim>\<open>server.js\<close>) reads JSON documents from two upstream feeds. A scalar JSON
  value that the code tests for truthiness, compares with \<^verbatim>\<open>===\<close> or interpolates into
  a template literal is a \<open>jsval\<close>. \<open>JUndefined\<close> is what reading an absent property gives.
  Numbers among the feed's properties (year, event number) are integers; strings are
  lists of characters, one \<open>char\<close> per code unit.
\<close>

datatype jsval = JUndefined | JNull | JBool bool | JNum int | JStr string

text \<open>What \<^verbatim>\<open>throw\<close> raises: \<^verbatim>\<open>new Error(message)\<close> (also the rejection of a network
  call, with its message) or a \<^verbatim>\<open>TypeError\<close> of the runtime.\<close>

datatype js_error = Error string | TypeError string

fun message :: "js_error \<Rightarrow> string" where
  "message (Error m) = m"
| "message (TypeError m) = m"

text \<open>Truthiness: what \<^verbatim>\<open>if (v)\<close>, \<^verbatim>\<open>!v\<close> and \<^verbatim>\<open>a && b\<close> test.\<close>

fun truthy :: "jsval \<Rightarrow> bool" where
  "truthy JUndefined = False"
| "truthy JNull = False"
| "truthy (JBool b) = b"
| "truthy (JNum n) = (n \<noteq> 0)"
| "truthy (JStr s) = (s \<noteq> [])"

text \<open>Decimal digits of an integer, as \<^verbatim>\<open>Number.prototype.toString\<close> prints them.\<close>

fun show_nat :: "nat \<Rightarrow> string" where
  "show_nat n = (if n < 10 then [''0123456789'' ! n]
                 else show_nat (n div 10) @ [''0123456789'' ! (n mod 10)])"

declare show_nat.simps [simp del]

definition show_int :: "int \<Rightarrow> string" where
  "show_int i = (if i < 0 then CHR ''-'' # show_nat (nat (- i)) else show_nat (nat i))"

text \<open>The string a template literal \<^verbatim>\<open>`${v}`\<close> inserts for a value.\<close>

fun toString :: "jsval \<Rightarrow> string" where
  "toString JUndefined = ''undefined''"
| "toString JNull = ''null''"
| "toString (JBool b) = (if b then ''true'' else ''false'')"
| "toString (JNum n) = show_int n"
| "toString (JStr s) = s"

text \<open>\<^verbatim>\<open>s.padStart(2, '0')\<close>.\<close>

definition padStart2 :: "string \<Rightarrow> string" where
  "padStart2 s = replicate (2 - length s) CHR ''0'' @ s"

text \<open>\<^verbatim>\<open>s.substring(0, n)\<close> for a non-negative \<open>n\<close>.\<close>

definition substring0 :: "nat \<Rightarrow> string \<Rightarrow> string" where
  "substring0 n s = take n s"

text \<open>
  An object of scalar properties (\<^verbatim>\<open>feature.properties\<close>) is an association list; reading
  a property that is not there gives \<^verbatim>\<open>undefined\<close>.
\<close>

type_synonym props = "(string \<times> jsval) list"

definition getprop :: "props \<Rightarrow> string \<Rightarrow> jsval" where
  "getprop p k = (case map_of p k of None \<Rightarrow> JUndefined | Some v \<Rightarrow> v)"

section \<open>The platform: dates and number printing\<close>

text \<open>
  \<^verbatim>\<open>Date\<close> and the printing of floating-point numbers belong to the JavaScript runtime,
  not to the repository; the model takes them as parameters. \<open>newDate v\<close> is the time
  value (milliseconds since the epoch) of \<^verbatim>\<open>new Date(v)\<close>, \<open>None\<close> when
  \<^verbatim>\<open>getTime()\<close> is \<^verbatim>\<open>NaN\<close>. The number type \<open>'a\<close> stands for the finite numbers of
  the feed's coordinates; \<open>'a ext\<close> adds the three values of a JavaScript number that
  are no finite number.
\<close>

datatype 'a ext = NaN | MinusInfinity | Finite 'a | Infinity

record 'a platform =
  newDate :: "jsval \<Rightarrow> int option"
  toISOString :: "int \<Rightarrow> string"
  getUTCFullYear :: "int \<Rightarrow> int"
  getUTCMonth :: "int \<Rightarrow> int"
  getUTCDate :: "int \<Rightarrow> int"
  getUTCHours :: "int \<Rightarrow> int"
  getUTCMinutes :: "int \<Rightarrow> int"
  numberToString :: "'a ext \<Rightarrow> string"

section \<open>validateAndFormatTimestamp\<close>

definition is_digit :: "char \<Rightarrow> bool" where
  "is_digit c = (c \<in> set ''0123456789'')"

text \<open>\<^verbatim>\<open>timestamp.match(/^\d{4}-\d{2}-\d{2}$/)\<close>: the whole string is a bare date.\<close>

fun matches_date_only :: "string \<Rightarrow> bool" where
  "matches_date_only [y1, y2, y3, y4, d1, m1, m2, d2, a1, a2] =
     (is_digit y1 \<and> is_digit y2 \<and> is_digit y3 \<and> is_digit y4 \<and> d1 = CHR ''-'' \<and>
      is_digit m1 \<and> is_digit m2 \<and> d2 = CHR ''-'' \<and> is_digit a1 \<and> is_digit a2)"
| "matches_date_only _ = False"

text \<open>\<^verbatim>\<open>timestamp.includes('T')\<close> for the one-character needles the code uses.\<close>

definition str_includes :: "string \<Rightarrow> char \<Rightarrow> bool" where
  "str_includes s c = (c \<in> set s)"

definition validateAndFormatTimestamp :: "'a platform \<Rightarrow> string \<Rightarrow> js_error + string" where
  "validateAndFormatTimestamp pl timestamp =
     (let date =
        (if str_includes timestamp CHR ''T'' \<and> str_includes timestamp CHR ''Z'' then
           newDate pl (JStr timestamp)
         else if str_includes timestamp CHR ''T'' \<and> \<not> str_includes timestamp CHR ''Z'' then
           newDate pl (JStr (timestamp @ ''Z''))
         else if matches_date_only timestamp then
           newDate pl (JStr (timestamp @ ''T00:00:00Z''))
         else
           newDate pl (JStr timestamp))
      in case date of
           None \<Rightarrow> Inl (Error (''Invalid timestamp format: '' @ timestamp))
         | Some t \<Rightarrow> Inr (toISOString pl t))"

section \<open>The feed and the extracted warnings\<close>

text \<open>
  The feed is whatever JSON document the upstream service answers with; the model keeps
  of it what the code reads.

  The box computation reads a value \<^verbatim>\<open>c\<close> among the flattened coordinates by \<^verbatim>\<open>c[1]\<close>
  and \<^verbatim>\<open>c[0]\<close> only, and hands these to \<^verbatim>\<open>Math.min\<close> and \<^verbatim>\<open>Math.max\<close>, which turn
  their arguments into numbers. \<open>NullEntry\<close> is the value \<^verbatim>\<open>null\<close>, of which no member
  can be read. \<open>Pos a b\<close> is any other value, \<open>a\<close> and \<open>b\<close> being the numbers
  that \<^verbatim>\<open>c[0]\<close> and \<^verbatim>\<open>c[1]\<close> are turned into (\<open>NaN\<close> for what is no number): a GeoJSON
  position \<^verbatim>\<open>[lon, lat]\<close> is \<open>Pos (Finite lon) (Finite lat)\<close>.

  \<^verbatim>\<open>coordinates.flat()\<close> splices the elements that are arrays and keeps the others as
  they are; \<^verbatim>\<open>coordinates.flat(2)\<close> does so twice. An element of a polygon's
  \<^verbatim>\<open>coordinates\<close> is therefore an array of values (\<open>Array1\<close>, a ring) or a value that
  is no array (\<open>Leaf1\<close>); an element of a multi-polygon's is an array of such elements
  (\<open>Array2\<close>, a polygon) or a value that is no array (\<open>Leaf2\<close>). The member
  \<^verbatim>\<open>coordinates\<close> itself is absent or falsy (\<open>NoCoordinates\<close>), truthy and no array
  (\<open>NotAnArray\<close>: it has no method \<^verbatim>\<open>flat\<close>), or an array. \<open>OtherGeometry\<close> is a
  geometry of any other \<^verbatim>\<open>type\<close>, or one that is no object.

  An entry of \<^verbatim>\<open>features\<close> is \<^verbatim>\<open>null\<close> (\<open>None\<close>) or a record: its \<^verbatim>\<open>id\<close>, its
  \<^verbatim>\<open>properties\<close> and its \<^verbatim>\<open>geometry\<close>, the last two \<open>None\<close> when the member is absent
  or falsy. An entry that is neither \<^verbatim>\<open>null\<close> nor an object (a number, a string) has no
  such members and reads as a record without properties. The member \<^verbatim>\<open>features\<close> of
  the document is absent or falsy (\<open>NoFeatures\<close>), truthy and no array
  (\<open>FeaturesNotAnArray\<close>: it has no method \<^verbatim>\<open>filter\<close>), or an array of entries.
\<close>

type_synonym 'a position = "'a \<times> 'a"

datatype 'a jpoint = NullEntry | Pos "'a ext" "'a ext"

datatype 'a nested1 = Leaf1 "'a jpoint" | Array1 "'a jpoint list"

datatype 'a nested2 = Leaf2 "'a jpoint" | Array2 "'a nested1 list"

datatype 'c coordinates = NoCoordinates | NotAnArray | Coordinates 'c

datatype 'a geometry =
    Polygon "'a nested1 list coordinates"
  | MultiPolygon "'a nested2 list coordinates"
  | OtherGeometry

record 'a feature =
  feature_id :: jsval
  feature_properties :: "props option"
  feature_geometry :: "'a geometry option"

datatype 'a feature_array =
    NoFeatures
  | FeaturesNotAnArray
  | Features "'a feature option list"

record 'a feed =
  features :: "'a feature_array"

record 'a bbox =
  xmin :: "'a ext"
  ymin :: "'a ext"
  xmax :: "'a ext"
  ymax :: "'a ext"

text \<open>\<^verbatim>\<open>xs.map(f)\<close> and \<^verbatim>\<open>xs.filter(f)\<close> where \<open>f\<close> may throw: the first exception
  ends the traversal and is the exception of the whole expression.\<close>

fun map_throwing :: "('x \<Rightarrow> js_error + 'y) \<Rightarrow> 'x list \<Rightarrow> js_error + 'y list" where
  "map_throwing f [] = Inr []"
| "map_throwing f (x # xs) =
     (case f x of
        Inl e \<Rightarrow> Inl e
      | Inr y \<Rightarrow> (case map_throwing f xs of Inl e \<Rightarrow> Inl e | Inr ys \<Rightarrow> Inr (y # ys)))"

fun filter_throwing :: "('x \<Rightarrow> js_error + bool) \<Rightarrow> 'x list \<Rightarrow> js_error + 'x list" where
  "filter_throwing f [] = Inr []"
| "filter_throwing f (x # xs) =
     (case f x of
        Inl e \<Rightarrow> Inl e
      | Inr keep \<Rightarrow>
          (case filter_throwing f xs of
             Inl e \<Rightarrow> Inl e
           | Inr ys \<Rightarrow> Inr (if keep then x # ys else ys)))"

text \<open>\<^verbatim>\<open>Math.min(...xs)\<close> and \<^verbatim>\<open>Math.max(...xs)\<close>: \<^verbatim>\<open>NaN\<close> as soon as one argument is
  \<^verbatim>\<open>NaN\<close>; with no argument they are \<^verbatim>\<open>Infinity\<close> and \<^verbatim>\<open>-Infinity\<close>.\<close>

fun js_min :: "'a::linorder ext \<Rightarrow> 'a ext \<Rightarrow> 'a ext" where
  "js_min NaN y = NaN"
| "js_min x NaN = NaN"
| "js_min MinusInfinity y = MinusInfinity"
| "js_min x MinusInfinity = MinusInfinity"
| "js_min Infinity y = y"
| "js_min x Infinity = x"
| "js_min (Finite x) (Finite y) = Finite (min x y)"

fun js_max :: "'a::linorder ext \<Rightarrow> 'a ext \<Rightarrow> 'a ext" where
  "js_max NaN y = NaN"
| "js_max x NaN = NaN"
| "js_max Infinity y = Infinity"
| "js_max x Infinity = Infinity"
| "js_max MinusInfinity y = y"
| "js_max x MinusInfinity = x"
| "js_max (Finite x) (Finite y) = Finite (max x y)"

definition math_min :: "'a::linorder ext list \<Rightarrow> 'a ext" where
  "math_min xs = fold js_min xs Infinity"

definition math_max :: "'a::linorder ext list \<Rightarrow> 'a ext" where
  "math_max xs = fold js_max xs MinusInfinity"

text \<open>\<^verbatim>\<open>x - margin\<close> and \<^verbatim>\<open>x + margin\<close> for a finite margin.\<close>

fun ext_minus :: "'a::minus ext \<Rightarrow> 'a \<Rightarrow> 'a ext" where
  "ext_minus (Finite x) m = Finite (x - m)"
| "ext_minus Infinity m = Infinity"
| "ext_minus MinusInfinity m = MinusInfinity"
| "ext_minus NaN m = NaN"

fun ext_plus :: "'a::plus ext \<Rightarrow> 'a \<Rightarrow> 'a ext" where
  "ext_plus (Finite x) m = Finite (x + m)"
| "ext_plus Infinity m = Infinity"
| "ext_plus MinusInfinity m = MinusInfinity"
| "ext_plus NaN m = NaN"

text \<open>\<^verbatim>\<open>xs.flat()\<close> and \<^verbatim>\<open>xs.flat(2)\<close>.\<close>

fun splice1 :: "'a nested1 \<Rightarrow> 'a jpoint list" where
  "splice1 (Leaf1 c) = [c]"
| "splice1 (Array1 cs) = cs"

definition flat1 :: "'a nested1 list \<Rightarrow> 'a jpoint list" where
  "flat1 xs = concat (map splice1 xs)"

fun splice2 :: "'a nested2 \<Rightarrow> 'a jpoint list" where
  "splice2 (Leaf2 c) = [c]"
| "splice2 (Array2 xs) = flat1 xs"

definition flat2 :: "'a nested2 list \<Rightarrow> 'a jpoint list" where
  "flat2 xs = concat (map splice2 xs)"

text \<open>The flattened coordinates of a geometry: \<open>Inr None\<close> where the helper returns
  \<^verbatim>\<open>null\<close>, \<open>Inl\<close> where the call of \<^verbatim>\<open>flat\<close> throws.\<close>

fun flat_coords :: "'a geometry \<Rightarrow> js_error + 'a jpoint list option" where
  "flat_coords (Polygon NoCoordinates) = Inr None"
| "flat_coords (MultiPolygon NoCoordinates) = Inr None"
| "flat_coords (Polygon NotAnArray) =
     Inl (TypeError ''geometry.coordinates.flat is not a function'')"
| "flat_coords (MultiPolygon NotAnArray) =
     Inl (TypeError ''geometry.coordinates.flat is not a function'')"
| "flat_coords (Polygon (Coordinates xs)) = Inr (Some (flat1 xs))"
| "flat_coords (MultiPolygon (Coordinates xs)) = Inr (Some (flat2 xs))"
| "flat_coords OtherGeometry = Inr None"

text \<open>The callbacks \<^verbatim>\<open>c => c[1]\<close> and \<^verbatim>\<open>c => c[0]\<close>.\<close>

fun index1 :: "'a jpoint \<Rightarrow> js_error + 'a ext" where
  "index1 NullEntry = Inl (TypeError ''Cannot read properties of null (reading '1')'')"
| "index1 (Pos a b) = Inr b"

fun index0 :: "'a jpoint \<Rightarrow> js_error + 'a ext" where
  "index0 NullEntry = Inl (TypeError ''Cannot read properties of null (reading '0')'')"
| "index0 (Pos a b) = Inr a"

definition getBoundingBox ::
  "('a::{linorder,plus,minus}) geometry option \<Rightarrow> 'a \<Rightarrow> js_error + 'a bbox option" where
  "getBoundingBox geometry margin =
     (case geometry of
        None \<Rightarrow> Inr None
      | Some g \<Rightarrow>
          (case flat_coords g of
             Inl err \<Rightarrow> Inl err
           | Inr None \<Rightarrow> Inr None
           | Inr (Some coords) \<Rightarrow>
               (case map_throwing index1 coords of
                  Inl err \<Rightarrow> Inl err
                | Inr lats \<Rightarrow>
                    (case map_throwing index0 coords of
                       Inl err \<Rightarrow> Inl err
                     | Inr lons \<Rightarrow>
                         Inr (Some \<lparr> xmin = ext_minus (math_min lons) margin,
                                     ymin = ext_minus (math_min lats) margin,
                                     xmax = ext_plus (math_max lons) margin,
                                     ymax = ext_plus (math_max lats) margin \<rparr>)))))"

definition pad :: "int \<Rightarrow> string" where
  "pad n = padStart2 (show_int n)"

definition formatTimestampForRadMap :: "'a platform \<Rightarrow> jsval \<Rightarrow> string" where
  "formatTimestampForRadMap pl ts =
     (if \<not> truthy ts then ''''
      else case newDate pl ts of
             None \<Rightarrow> ''''
           | Some d \<Rightarrow>
               show_int (getUTCFullYear pl d) @ pad (getUTCMonth pl d + 1) @
               pad (getUTCDate pl d) @ pad (getUTCHours pl d) @ pad (getUTCMinutes pl d))"

record 'a warning =
  wid :: jsval
  properties :: props
  geometry :: "'a geometry option"
  wfo :: jsval
  eventid :: jsval
  status :: jsval
  issued :: jsval
  expires :: jsval
  polygonBegin :: jsval
  polygonEnd :: jsval
  windtag :: jsval
  hailtag :: jsval
  tornadotag :: jsval
  isPDS :: jsval
  isEmergency :: jsval
  productSignature :: jsval
  href :: jsval
  radmapImageUrl :: "string option"
  plotImageUrl :: "string option"
  nwstextUrl :: "string option"

text \<open>The filter's predicate: \<^verbatim>\<open>properties && properties.ps === "Tornado Warning"\<close>.\<close>

definition isTornadoWarning :: "'a feature \<Rightarrow> bool" where
  "isTornadoWarning feature =
     (case feature_properties feature of
        None \<Rightarrow> False
      | Some p \<Rightarrow> getprop p ''ps'' = JStr ''Tornado Warning'')"

definition radmapUrl :: "'a platform \<Rightarrow> 'a bbox \<Rightarrow> jsval \<Rightarrow> string" where
  "radmapUrl pl b issue =
     ''https://mesonet.agron.iastate.edu/GIS/radmap.php?layers[]=nexrad&layers[]=sbw&layers[]=places&layers[]=interstates&layers[]=uscounties&bbox=''
     @ numberToString pl (xmin b) @ '','' @ numberToString pl (ymin b) @ '','' @
       numberToString pl (xmax b) @ '','' @ numberToString pl (ymax b) @
     ''&width=800&height=600&ts='' @ formatTimestampForRadMap pl issue @
     ''&title=Tornado%20Warning''"

definition plotUrl :: "props \<Rightarrow> string" where
  "plotUrl p =
     ''https://mesonet.agron.iastate.edu/plotting/auto/plot/208/network:WFO::wfo:'' @
     toString (getprop p ''wfo'') @ ''::year:'' @ toString (getprop p ''year'') @
     ''::phenomenav:'' @ toString (getprop p ''phenomena'') @
     ''::significancev:'' @ toString (getprop p ''significance'') @
     ''::etn:'' @ toString (getprop p ''eventid'') @
     ''::opt:single::n:auto::_r:88::dpi:200.png''"

text \<open>
  The body of the \<^verbatim>\<open>map\<close> callback, for an entry that is a record. The box is
  computed first. Reading \<^verbatim>\<open>feature.properties.issue\<close> of a record with no properties
  object would be a \<^verbatim>\<open>TypeError\<close>; the filter before the map lets no such record
  through.
\<close>

definition toWarning ::
  "('a::linordered_field) platform \<Rightarrow> 'a feature \<Rightarrow> js_error + 'a warning" where
  "toWarning pl feature =
     (case getBoundingBox (feature_geometry feature) (2 / 10) of
        Inl err \<Rightarrow> Inl err
      | Inr bbox \<Rightarrow>
          (case feature_properties feature of
             None \<Rightarrow> Inl (TypeError ''Cannot read properties of undefined (reading 'issue')'')
           | Some p \<Rightarrow>
               (let issued' = getprop p ''issue'';
                    radmap = (case bbox of
                                None \<Rightarrow> None
                              | Some b \<Rightarrow> if truthy issued' then Some (radmapUrl pl b issued')
                                          else None);
                    nwstext = (if truthy (getprop p ''product_id'')
                               then Some (''https://mesonet.agron.iastate.edu/json/nwstext.py?product_id=''
                                          @ toString (getprop p ''product_id''))
                               else None);
                    plot = (if truthy (getprop p ''wfo'') \<and> truthy (getprop p ''year'') \<and>
                               truthy (getprop p ''phenomena'') \<and>
                               truthy (getprop p ''significance'') \<and>
                               truthy (getprop p ''eventid'')
                            then Some (plotUrl p) else None)
                in Inr \<lparr> wid = feature_id feature,
                         properties = p,
                         geometry = feature_geometry feature,
                         wfo = getprop p ''wfo'',
                         eventid = getprop p ''eventid'',
                         status = getprop p ''status'',
                         issued = getprop p ''issue'',
                         expires = getprop p ''expire_utc'',
                         polygonBegin = getprop p ''polygon_begin'',
                         polygonEnd = getprop p ''polygon_end'',
                         windtag = getprop p ''windtag'',
                         hailtag = getprop p ''hailtag'',
                         tornadotag = getprop p ''tornadotag'',
                         isPDS = getprop p ''is_pds'',
                         isEmergency = getprop p ''is_emergency'',
                         productSignature = getprop p ''product_signature'',
                         href = getprop p ''href'',
                         radmapImageUrl = radmap,
                         plotImageUrl = plot,
                         nwstextUrl = nwstext \<rparr>)))"

text \<open>
  A callback applied to an entry of \<^verbatim>\<open>features\<close>. Both callbacks begin by reading a
  member of the entry (\<^verbatim>\<open>feature.properties\<close> in the filter, \<^verbatim>\<open>feature.geometry\<close> in the
  map), which throws when the entry is \<^verbatim>\<open>null\<close>.
\<close>

fun onEntry ::
  "string \<Rightarrow> ('a feature \<Rightarrow> js_error + 'b) \<Rightarrow> 'a feature option \<Rightarrow> js_error + 'b" where
  "onEntry member f None =
     Inl (TypeError (''Cannot read properties of null (reading '' @ [CHR 0x27] @ member @ [CHR 0x27] @ '')''))"
| "onEntry member f (Some feature) = f feature"

text \<open>
  The early return for a document that is falsy or has no \<^verbatim>\<open>features\<close>, then the
  filter, then the map. Neither traversal is inside a \<^verbatim>\<open>try\<close>.
\<close>

definition parseTornadoWarnings ::
  "('a::linordered_field) platform \<Rightarrow> 'a feed option \<Rightarrow> js_error + 'a warning list" where
  "parseTornadoWarnings pl geoJsonData =
     (case geoJsonData of
        None \<Rightarrow> Inr []
      | Some d \<Rightarrow>
          (case features d of
             NoFeatures \<Rightarrow> Inr []
           | FeaturesNotAnArray \<Rightarrow>
               Inl (TypeError ''geoJsonData.features.filter is not a function'')
           | Features fs \<Rightarrow>
               (case filter_throwing
                       (onEntry ''properties'' (\<lambda>feature. Inr (isTornadoWarning feature))) fs of
                  Inl err \<Rightarrow> Inl err
                | Inr tornadoWarnings \<Rightarrow>
                    map_throwing (onEntry ''geometry'' (toWarning pl)) tornadoWarnings)))"

section \<open>The network\<close>

text \<open>
  Every \<^verbatim>\<open>await axios.get\<close> and \<^verbatim>\<open>await axios.post\<close> is a question to the outside
  world, answered by a \<open>net\<close>: a rejection (\<open>Inl\<close>, with the error whose
  \<^verbatim>\<open>message\<close> the handlers log) or the \<^verbatim>\<open>data\<close> of the response. The first argument
  of each oracle numbers the calls of one cycle or request in program order, so the same
  URL can be answered differently at different moments.

  \<open>nwstext\<close> is the shape the raw-text service answers with as far as the code reads
  it: \<open>None\<close> when \<^verbatim>\<open>data\<close> is falsy or \<^verbatim>\<open>data.products\<close> is not an array, otherwise
  the \<^verbatim>\<open>data\<close> field of each product. \<open>get_rss_items\<close> is the download of the RSS
  document, its parsing by \<^verbatim>\<open>xml2js\<close> and the reading of \<^verbatim>\<open>result.rss.channel[0].item\<close>
  in one step: all three sit in the same \<^verbatim>\<open>try\<close> block. An \<open>md_item\<close> is an RSS item
  as the loop reads it: \<^verbatim>\<open>item.guid[0]._\<close> (\<open>None\<close> when it is undefined),
  \<^verbatim>\<open>item.link[0]\<close>, \<^verbatim>\<open>item.title[0]\<close> and \<^verbatim>\<open>item.description[0]\<close> (\<open>None\<close> when the
  item has no description). A \<open>form\<close> is the multipart body: the \<^verbatim>\<open>content\<close> field and,
  when a file is appended, its bytes and its file name.
\<close>

type_synonym nwstext = "string option list option"

record form =
  content :: string
  file_part :: "(string \<times> string) option"

record md_item =
  guid :: "string option"
  link :: string
  title :: string
  description :: "string option"

record 'a net =
  get_feed :: "nat \<Rightarrow> string \<Rightarrow> js_error + 'a feed option"
  get_text :: "nat \<Rightarrow> string \<Rightarrow> js_error + nwstext"
  get_image :: "nat \<Rightarrow> string \<Rightarrow> js_error + string"
  get_rss_items :: "nat \<Rightarrow> string \<Rightarrow> js_error + md_item list option"
  post_form :: "nat \<Rightarrow> string \<Rightarrow> form \<Rightarrow> js_error + unit"

definition API_BASE_URL :: string where
  "API_BASE_URL = ''https://mesonet.agron.iastate.edu/geojson/sbw.geojson''"

definition TORNADO_WEBHOOK :: string where
  "TORNADO_WEBHOOK = ''https://hook.us2.make.com/encxha5954hndv65p98is9prvx53qtua''"

definition MD_WEBHOOK :: string where
  "MD_WEBHOOK = ''https://hook.us2.make.com/2lfo732u8mwrpaabjdesea44s8iccn0c''"

text \<open>\<open>now\<close> is the clock's reading when \<^verbatim>\<open>getCurrentUTCTimestamp\<close> runs. A failed
  request is logged and answered with \<^verbatim>\<open>null\<close>.\<close>

definition fetchCurrentWarnings ::
  "'a platform \<Rightarrow> 'a net \<Rightarrow> nat \<Rightarrow> int \<Rightarrow> 'a feed option" where
  "fetchCurrentWarnings pl net n now =
     (let currentTime = toISOString pl now;
          url = API_BASE_URL @ ''?ts='' @ currentTime
      in case get_feed net n url of
           Inl error \<Rightarrow> None
         | Inr data \<Rightarrow> data)"

definition fetchWarningsForTimeRange ::
  "'a platform \<Rightarrow> 'a net \<Rightarrow> nat \<Rightarrow> string \<Rightarrow> string \<Rightarrow> 'a feed option" where
  "fetchWarningsForTimeRange pl net n startTime endTime =
     (case validateAndFormatTimestamp pl startTime of
        Inl error \<Rightarrow> None
      | Inr formattedStartTime \<Rightarrow>
          (case validateAndFormatTimestamp pl endTime of
             Inl error \<Rightarrow> None
           | Inr formattedEndTime \<Rightarrow>
               (let url = API_BASE_URL @ ''?sts='' @ formattedStartTime @
                          ''&ets='' @ formattedEndTime
                in case get_feed net n url of
                     Inl error \<Rightarrow> None
                   | Inr data \<Rightarrow> data)))"

section \<open>Dispatch of one tornado warning\<close>

text \<open>The zero-width space (U+200B) of the message template, as its three UTF-8
  bytes.\<close>

definition zero_width_space :: string where
  "zero_width_space = [CHR 0xE2, CHR 0x80, CHR 0x8B]"

definition rawTextPart :: "string \<Rightarrow> string" where
  "rawTextPart textData =
     substring0 1800 textData @ (if length textData > 1800 then ''...'' else [])"

definition warningHeader :: "'a warning \<Rightarrow> string" where
  "warningHeader warning =
     ''**Tornado Warning**'' @ [CHR 0x0A] @
     ''WFO: '' @ toString (wfo warning) @ [CHR 0x0A] @
     ''Event ID: '' @ toString (eventid warning) @ [CHR 0x0A] @
     ''Status: '' @ toString (status warning) @ [CHR 0x0A] @
     ''Expires: '' @ toString (expires warning) @ [CHR 0x0A, CHR 0x0A] @
     ''**Raw Text:**'' @ [CHR 0x0A] @ zero_width_space @ [CHR 0x0A]"

definition warningContent :: "'a warning \<Rightarrow> string \<Rightarrow> string" where
  "warningContent warning textData = warningHeader warning @ rawTextPart textData"

text \<open>\<^verbatim>\<open>textResp.data.products[0].data\<close> when every test of the guard passes, else the
  initial empty string.\<close>

fun firstProductText :: "nwstext \<Rightarrow> string" where
  "firstProductText (Some (Some d # rest)) = (if d \<noteq> [] then d else [])"
| "firstProductText _ = []"

definition fetchRawText :: "'a net \<Rightarrow> nat \<Rightarrow> 'a warning \<Rightarrow> (js_error + string) \<times> nat" where
  "fetchRawText net n warning =
     (case nwstextUrl warning of
        None \<Rightarrow> (Inr [], n)
      | Some url \<Rightarrow>
          (case get_text net n url of
             Inl err \<Rightarrow> (Inl err, n + 1)
           | Inr textResp \<Rightarrow> (Inr (firstProductText textResp), n + 1)))"

definition fetchPlotImage ::
  "'a net \<Rightarrow> nat \<Rightarrow> 'a warning \<Rightarrow> (js_error + string option) \<times> nat" where
  "fetchPlotImage net n warning =
     (case plotImageUrl warning of
        None \<Rightarrow> (Inr None, n)
      | Some url \<Rightarrow>
          (case get_image net n url of
             Inl err \<Rightarrow> (Inl err, n + 1)
           | Inr imageResp \<Rightarrow> (Inr (Some imageResp), n + 1)))"

text \<open>
  The body of the \<^verbatim>\<open>try\<close> block that both the scheduled cycle and the simulation
  route run for one warning (the source has the same statements twice). \<open>Inl\<close> is the
  exception the \<^verbatim>\<open>catch\<close> receives; the second component is the call counter after it.
\<close>

definition sendWarning :: "'a net \<Rightarrow> nat \<Rightarrow> 'a warning \<Rightarrow> (js_error + unit) \<times> nat" where
  "sendWarning net n warning =
     (case fetchRawText net n warning of
        (Inl err, n1) \<Rightarrow> (Inl err, n1)
      | (Inr textData, n1) \<Rightarrow>
          (case fetchPlotImage net n1 warning of
             (Inl err, n2) \<Rightarrow> (Inl err, n2)
           | (Inr imageBuffer, n2) \<Rightarrow>
               (let form = \<lparr> content = warningContent warning textData,
                              file_part = map_option (\<lambda>b. (b, ''plot.png'')) imageBuffer \<rparr>
                in (post_form net n2 TORNADO_WEBHOOK form, n2 + 1))))"

section \<open>The scheduled tornado-warning cycle\<close>

text \<open>
  The module's variables. A cycle's console output is kept as a log: for each warning
  whose dispatch was started, in order, whether \<^verbatim>\<open>Sent new warning\<close> or
  \<^verbatim>\<open>Failed to send warning\<close> (with the error's message) was printed.
\<close>

record 'a state =
  tornadoWarnings :: "'a warning list"
  lastUpdate :: "string option"
  lastMdIds :: "string set"

datatype outcome = Sent | Failed string

fun dispatchNew :: "'a net \<Rightarrow> nat \<Rightarrow> 'a warning list \<Rightarrow> ('a warning \<times> outcome) list" where
  "dispatchNew net n [] = []"
| "dispatchNew net n (warning # rest) =
     (case sendWarning net n warning of
        (Inr u, n') \<Rightarrow> (warning, Sent) # dispatchNew net n' rest
      | (Inl err, n') \<Rightarrow> (warning, Failed (message err)) # dispatchNew net n' rest)"

text \<open>
  The cycle reads the variable \<^verbatim>\<open>tornadoWarnings\<close> once, when the feed request has been
  answered and the feed extracted, and assigns it once, after the dispatch loop. Every
  \<^verbatim>\<open>await\<close> of the loop lies between the two, and another cycle can run there.

  \<open>beginCycle\<close> is the cycle from the answer of the feed request to the end of its
  dispatch loop: \<open>now\<close> is the clock at the fetch and \<open>st\<close> the variables as they are
  when the extraction is compared with them. Its result is \<open>Inr None\<close> when the fetch
  gave no data (the cycle is over), otherwise the extraction, which is still to be
  assigned, and the log of the dispatches. \<^verbatim>\<open>parseTornadoWarnings\<close> is called outside any
  \<^verbatim>\<open>try\<close>: an exception there rejects the cycle's promise (\<open>Inl\<close>) before anything is
  dispatched or assigned. What the dispatches do depends on the network alone, not on the
  variables. \<open>endCycle\<close> is the two assignments that end the cycle, \<open>later\<close> being
  the clock then and \<open>st\<close> the variables as they are then.
\<close>

definition beginCycle ::
  "('a::linordered_field) platform \<Rightarrow> 'a net \<Rightarrow> int \<Rightarrow> 'a state \<Rightarrow>
   js_error + ('a warning list \<times> ('a warning \<times> outcome) list) option" where
  "beginCycle pl net now st =
     (case fetchCurrentWarnings pl net 0 now of
        None \<Rightarrow> Inr None
      | Some currentData \<Rightarrow>
          (case parseTornadoWarnings pl (Some currentData) of
             Inl err \<Rightarrow> Inl err
           | Inr newTornadoWarnings \<Rightarrow>
               (let prevIds = set (map wid (tornadoWarnings st));
                    trulyNew = filter (\<lambda>w. wid w \<notin> prevIds) newTornadoWarnings;
                    sendLog = dispatchNew net 1 trulyNew
                in Inr (Some (newTornadoWarnings, sendLog)))))"

definition endCycle ::
  "'a platform \<Rightarrow> int \<Rightarrow> 'a warning list \<Rightarrow> 'a state \<Rightarrow> 'a state" where
  "endCycle pl later newTornadoWarnings st =
     st \<lparr> tornadoWarnings := newTornadoWarnings,
          lastUpdate := Some (toISOString pl later) \<rparr>"

text \<open>A cycle during which no other cycle runs.\<close>

definition monitorTornadoWarnings ::
  "('a::linordered_field) platform \<Rightarrow> 'a net \<Rightarrow> int \<Rightarrow> int \<Rightarrow> 'a state \<Rightarrow>
   js_error + ('a state \<times> ('a warning \<times> outcome) list)" where
  "monitorTornadoWarnings pl net now later st =
     (case beginCycle pl net now st of
        Inl err \<Rightarrow> Inl err
      | Inr None \<Rightarrow> Inr (st, [])
      | Inr (Some (newTornadoWarnings, sendLog)) \<Rightarrow>
          Inr (endCycle pl later newTornadoWarnings st, sendLog))"

text \<open>
  The scheduler starts a cycle every ten seconds (and one at start-up) and waits for
  none of them, so a cycle whose dispatches are slow is still in flight when the next
  one compares its extraction with the variables. A run of the scheduler is a sequence
  of events. \<open>Begin net now later\<close>: the feed request of a new cycle has been answered
  and the cycle runs up to the first \<^verbatim>\<open>await\<close> of its dispatch loop; when it has nothing
  to dispatch there is no such \<^verbatim>\<open>await\<close> and it runs to its end at once, at the clock
  \<open>later\<close>. \<open>End k later\<close>: the cycle at position \<open>k\<close> among those in flight has
  finished its dispatches and makes its two assignments. The scheduler keeps the
  variables, for each cycle in flight the extraction it is going to assign, and the
  log of every cycle, in the order in which the cycles began; a cycle that was rejected
  or fetched nothing has an empty log.
\<close>

datatype 'a event = Begin "'a net" int int | End nat int

record 'a scheduler =
  vars :: "'a state"
  inflight :: "'a warning list list"
  sendLogs :: "('a warning \<times> outcome) list list"

fun step ::
  "('a::linordered_field) platform \<Rightarrow> 'a scheduler \<Rightarrow> 'a event \<Rightarrow> 'a scheduler" where
  "step pl r (Begin net now later) =
     (case beginCycle pl net now (vars r) of
        Inl err \<Rightarrow> r \<lparr> sendLogs := sendLogs r @ [[]] \<rparr>
      | Inr None \<Rightarrow> r \<lparr> sendLogs := sendLogs r @ [[]] \<rparr>
      | Inr (Some (newTornadoWarnings, [])) \<Rightarrow>
          r \<lparr> vars := endCycle pl later newTornadoWarnings (vars r),
              sendLogs := sendLogs r @ [[]] \<rparr>
      | Inr (Some (newTornadoWarnings, entry # entries)) \<Rightarrow>
          r \<lparr> inflight := inflight r @ [newTornadoWarnings],
              sendLogs := sendLogs r @ [entry # entries] \<rparr>)"
| "step pl r (End k later) =
     (if k < length (inflight r)
      then r \<lparr> vars := endCycle pl later (inflight r ! k) (vars r),
               inflight := take k (inflight r) @ drop (Suc k) (inflight r) \<rparr>
      else r)"

definition runEvents ::
  "('a::linordered_field) platform \<Rightarrow> 'a scheduler \<Rightarrow> 'a event list \<Rightarrow> 'a scheduler" where
  "runEvents pl r events = foldl (step pl) r events"

text \<open>
  A run in which no two cycles overlap: every cycle makes its assignments before the
  feed request of the next one is answered. \<open>runTornado\<close> composes the cycles of such a
  run directly, one entry per tick with the tick's network and clock readings; a rejected
  cycle leaves the variables as they were.
\<close>

definition oneAfterAnother :: "('a net \<times> int \<times> int) list \<Rightarrow> 'a event list" where
  "oneAfterAnother ticks =
     concat (map (\<lambda>(net, now, later). [Begin net now later, End 0 later]) ticks)"

fun runTornado ::
  "('a::linordered_field) platform \<Rightarrow> 'a state \<Rightarrow> ('a net \<times> int \<times> int) list \<Rightarrow>
   'a state \<times> ('a warning \<times> outcome) list list" where
  "runTornado pl st [] = (st, [])"
| "runTornado pl st ((net, now, later) # ticks) =
     (case monitorTornadoWarnings pl net now later st of
        Inl err \<Rightarrow> (let (st', logs) = runTornado pl st ticks in (st', [] # logs))
      | Inr (st1, sendLog) \<Rightarrow> (let (st', logs) = runTornado pl st1 ticks in (st', sendLog # logs)))"

section \<open>The HTTP routes that take a time range\<close>

datatype 'a response_body =
    ErrorBody string
  | RangeBody nat "string \<times> string" "'a warning list"
  | SimulateBody nat nat nat

record 'a response =
  http_status :: nat
  body :: "'a response_body"

text \<open>\<^verbatim>\<open>!start\<close> for a query parameter: absent, or the empty string.\<close>

fun absent :: "string option \<Rightarrow> bool" where
  "absent None = True"
| "absent (Some s) = (s = [])"

definition missingParameters :: "'a response" where
  "missingParameters =
     \<lparr> http_status = 400,
       body = ErrorBody ''Both start and end parameters are required (ISO8601 format)'' \<rparr>"

text \<open>\<^verbatim>\<open>data ? parseTornadoWarnings(data) : []\<close>.\<close>

definition warningsOf ::
  "('a::linordered_field) platform \<Rightarrow> 'a feed option \<Rightarrow> js_error + 'a warning list" where
  "warningsOf pl data =
     (case data of None \<Rightarrow> Inr [] | Some d \<Rightarrow> parseTornadoWarnings pl (Some d))"

definition getTornadoWarningsRange ::
  "('a::linordered_field) platform \<Rightarrow> 'a net \<Rightarrow> string option \<Rightarrow> string option \<Rightarrow>
   'a response" where
  "getTornadoWarningsRange pl net start end' =
     (case (start, end') of
        (Some s, Some e) \<Rightarrow>
          (if absent start \<or> absent end' then missingParameters
           else case warningsOf pl (fetchWarningsForTimeRange pl net 0 s e) of
                  Inl error \<Rightarrow> \<lparr> http_status = 500, body = ErrorBody (message error) \<rparr>
                | Inr warnings \<Rightarrow>
                    \<lparr> http_status = 200,
                      body = RangeBody (length warnings) (s, e) warnings \<rparr>)
      | _ \<Rightarrow> missingParameters)"

text \<open>The simulation route's loop, with its two counters.\<close>

fun simulateLoop :: "'a net \<Rightarrow> nat \<Rightarrow> 'a warning list \<Rightarrow> nat \<Rightarrow> nat \<Rightarrow> nat \<times> nat" where
  "simulateLoop net n [] sent failed = (sent, failed)"
| "simulateLoop net n (warning # rest) sent failed =
     (case sendWarning net n warning of
        (Inr u, n') \<Rightarrow> simulateLoop net n' rest (sent + 1) failed
      | (Inl err, n') \<Rightarrow> simulateLoop net n' rest sent (failed + 1))"

definition postSimulateTornadoWarnings ::
  "('a::linordered_field) platform \<Rightarrow> 'a net \<Rightarrow> string option \<Rightarrow> string option \<Rightarrow>
   'a response" where
  "postSimulateTornadoWarnings pl net start end' =
     (case (start, end') of
        (Some s, Some e) \<Rightarrow>
          (if absent start \<or> absent end' then missingParameters
           else case warningsOf pl (fetchWarningsForTimeRange pl net 0 s e) of
                  Inl error \<Rightarrow> \<lparr> http_status = 500, body = ErrorBody (message error) \<rparr>
                | Inr warnings \<Rightarrow>
                    (let (sent, failed) = simulateLoop net 1 warnings 0 0
                     in \<lparr> http_status = 200,
                          body = SimulateBody sent failed (length warnings) \<rparr>))
      | _ \<Rightarrow> missingParameters)"

section \<open>The mesoscale-discussion cycle\<close>

definition dquote :: char where
  "dquote = CHR 0x22"

definition img_open :: string where
  "img_open = ''<img src='' @ [dquote]"

text \<open>A match of \<^verbatim>\<open>/<img src="([^"]+)"/\<close> that starts at the head of the string: the
  captured group.\<close>

definition img_match_here :: "string \<Rightarrow> string option" where
  "img_match_here s =
     (if take (length img_open) s = img_open then
        (let rest = drop (length img_open) s;
             url = takeWhile (\<lambda>c. c \<noteq> dquote) rest;
             after = dropWhile (\<lambda>c. c \<noteq> dquote) rest
         in if url \<noteq> [] \<and> after \<noteq> [] then Some url else None)
      else None)"

text \<open>\<^verbatim>\<open>desc.match(/<img src="([^"]+)"/)\<close>: the leftmost match.\<close>

fun img_match :: "string \<Rightarrow> string option" where
  "img_match [] = None"
| "img_match (c # cs) =
     (case img_match_here (c # cs) of
        Some url \<Rightarrow> Some url
      | None \<Rightarrow> img_match cs)"

text \<open>\<^verbatim>\<open>desc.replace(/<[^>]+>/g, '')\<close>: every tag, from left to right, is removed.\<close>

function strip_tags :: "string \<Rightarrow> string" where
  "strip_tags [] = []"
| "strip_tags (c # cs) =
     (if c = CHR ''<'' \<and> takeWhile (\<lambda>x. x \<noteq> CHR ''>'') cs \<noteq> [] \<and>
         dropWhile (\<lambda>x. x \<noteq> CHR ''>'') cs \<noteq> []
      then strip_tags (tl (dropWhile (\<lambda>x. x \<noteq> CHR ''>'') cs))
      else c # strip_tags cs)"
  by pat_completeness auto
termination
  by (relation "measure length")
     (auto simp: less_Suc_eq_le intro: le_trans [OF diff_le_self length_dropWhile_le])

text \<open>\<^verbatim>\<open>s.trim()\<close>, over the white space and line terminators that fit one \<open>char\<close>.\<close>

definition is_space :: "char \<Rightarrow> bool" where
  "is_space c = (c \<in> {CHR 0x09, CHR 0x0A, CHR 0x0B, CHR 0x0C, CHR 0x0D, CHR 0x20, CHR 0xA0})"

definition trim :: "string \<Rightarrow> string" where
  "trim s = rev (dropWhile is_space (rev (dropWhile is_space s)))"

text \<open>\<^verbatim>\<open>item.guid[0]._ || item.link[0]\<close>.\<close>

definition itemGuid :: "md_item \<Rightarrow> string" where
  "itemGuid item =
     (case guid item of
        None \<Rightarrow> link item
      | Some g \<Rightarrow> if g \<noteq> [] then g else link item)"

definition mdContent :: "md_item \<Rightarrow> string \<Rightarrow> string" where
  "mdContent item textContent =
     ''**Mesoscale Discussion**'' @ [CHR 0x0A] @ title item @ [CHR 0x0A, CHR 0x0A] @ textContent"

text \<open>\<^verbatim>\<open>imageUrl\<close> and \<^verbatim>\<open>textContent\<close> of an item.\<close>

definition itemImageUrl :: "md_item \<Rightarrow> string option" where
  "itemImageUrl item =
     (case description item of
        None \<Rightarrow> None
      | Some desc \<Rightarrow> if desc \<noteq> [] then img_match desc else None)"

definition itemTextContent :: "md_item \<Rightarrow> string" where
  "itemTextContent item =
     (case description item of
        None \<Rightarrow> []
      | Some desc \<Rightarrow> if desc \<noteq> [] then trim (strip_tags desc) else [])"

text \<open>
  What one cycle leaves behind: the seen-set, the identifiers whose dispatch was started
  (those the loop passed \<^verbatim>\<open>lastMdIds.add(guid)\<close> with), the identifiers for which
  \<^verbatim>\<open>Sent new MD\<close> was logged, and the exception the single \<^verbatim>\<open>catch\<close> received, if any.
\<close>

record md_log =
  seen :: "string set"
  started :: "string list"
  sent_mds :: "string list"
  caught :: "js_error option"

text \<open>The statements of the loop body after \<^verbatim>\<open>lastMdIds.add(guid)\<close>: the optional image
  download, then the POST.\<close>

definition sendDiscussion :: "'a net \<Rightarrow> nat \<Rightarrow> md_item \<Rightarrow> (js_error + unit) \<times> nat" where
  "sendDiscussion net n item =
     (case itemImageUrl item of
        None \<Rightarrow>
          (post_form net n MD_WEBHOOK
             \<lparr> content = mdContent item (itemTextContent item), file_part = None \<rparr>, n + 1)
      | Some imageUrl \<Rightarrow>
          (case get_image net n imageUrl of
             Inl err \<Rightarrow> (Inl err, n + 1)
           | Inr imageResp \<Rightarrow>
               (post_form net (n + 1) MD_WEBHOOK
                  \<lparr> content = mdContent item (itemTextContent item),
                    file_part = Some (imageResp, ''md.png'') \<rparr>, n + 2)))"

fun mdLoop :: "'a net \<Rightarrow> nat \<Rightarrow> md_item list \<Rightarrow> string set \<Rightarrow> md_log" where
  "mdLoop net n [] ids = \<lparr> seen = ids, started = [], sent_mds = [], caught = None \<rparr>"
| "mdLoop net n (item # items) ids =
     (let g = itemGuid item in
      if g \<in> ids then mdLoop net n items ids
      else
        (case sendDiscussion net n item of
           (Inl err, n') \<Rightarrow>
             \<lparr> seen = insert g ids, started = [g], sent_mds = [], caught = Some err \<rparr>
         | (Inr u, n') \<Rightarrow>
             (let r = mdLoop net n' items (insert g ids)
              in r \<lparr> started := g # started r, sent_mds := g # sent_mds r \<rparr>)))"

definition RSS_URL :: string where
  "RSS_URL = ''https://www.spc.noaa.gov/products/spcmdrss.xml''"

definition monitorMesoscaleDiscussions :: "'a net \<Rightarrow> 'a state \<Rightarrow> 'a state \<times> md_log" where
  "monitorMesoscaleDiscussions net st =
     (case get_rss_items net 0 RSS_URL of
        Inl err \<Rightarrow>
          (st, \<lparr> seen = lastMdIds st, started = [], sent_mds = [], caught = Some err \<rparr>)
      | Inr item_field \<Rightarrow>
          (let items = (case item_field of None \<Rightarrow> [] | Some xs \<Rightarrow> xs);
               r = mdLoop net 1 items (lastMdIds st)
           in (st \<lparr> lastMdIds := seen r \<rparr>, r)))"

fun runDiscussions :: "'a state \<Rightarrow> 'a net list \<Rightarrow> 'a state \<times> md_log list" where
  "runDiscussions st [] = (st, [])"
| "runDiscussions st (net # ticks) =
     (let (st1, r) = monitorMesoscaleDiscussions net st;
          (st', logs) = runDiscussions st1 ticks
      in (st', r # logs))"

section \<open>Notions the claims are stated with\<close>

text \<open>The feed record a warning was built from: its identifier, its properties and its
  geometry are copied into the warning unchanged.\<close>

definition sourceFeature :: "'a warning \<Rightarrow> 'a feature" where
  "sourceFeature w =
     \<lparr> feature_id = wid w, feature_properties = Some (properties w),
       feature_geometry = geometry w \<rparr>"

text \<open>
  A polygon as GeoJSON has it, an array of rings, each an array of positions, and a
  multi-polygon, an array of such polygons, as values of \<^verbatim>\<open>coordinates\<close>.
\<close>

definition positionJson :: "'a position \<Rightarrow> 'a jpoint" where
  "positionJson c = Pos (Finite (fst c)) (Finite (snd c))"

definition ringsJson :: "'a position list list \<Rightarrow> 'a nested1 list" where
  "ringsJson rings = map (\<lambda>ring. Array1 (map positionJson ring)) rings"

definition polygonsJson :: "'a position list list list \<Rightarrow> 'a nested2 list" where
  "polygonsJson polys = map (\<lambda>rings. Array2 (ringsJson rings)) polys"

text \<open>
  The bounding box as the specification words it: all coordinate pairs of the polygon
  (single or multi-polygon), the minimum and maximum of their longitudes and latitudes,
  each side moved outward by the margin.
\<close>

definition polygonPoints :: "'a position list list \<Rightarrow> 'a position set" where
  "polygonPoints rings = (\<Union>ring \<in> set rings. set ring)"

definition multiPolygonPoints :: "'a position list list list \<Rightarrow> 'a position set" where
  "multiPolygonPoints polys = (\<Union>rings \<in> set polys. polygonPoints rings)"

definition paddedBox :: "('a::{linorder,plus,minus}) position set \<Rightarrow> 'a \<Rightarrow> 'a bbox" where
  "paddedBox pts m =
     \<lparr> xmin = Finite (Min (fst ` pts) - m), ymin = Finite (Min (snd ` pts) - m),
       xmax = Finite (Max (fst ` pts) + m), ymax = Finite (Max (snd ` pts) + m) \<rparr>"

text \<open>The five identification properties that the plot-image URL is built from.\<close>

definition plotKeys :: "string list" where
  "plotKeys = [''wfo'', ''year'', ''phenomena'', ''significance'', ''eventid'']"

text \<open>
  The shapes of a timestamp as the normaliser tells them apart, by the characters of the
  input alone, and the string that is handed to \<^verbatim>\<open>Date\<close> for each: with both a \<^verbatim>\<open>T\<close>
  and a \<^verbatim>\<open>Z\<close> the input as it is; with a \<^verbatim>\<open>T\<close> and no \<^verbatim>\<open>Z\<close> the input followed by
  \<^verbatim>\<open>Z\<close>; a bare \<^verbatim>\<open>YYYY-MM-DD\<close> followed by \<^verbatim>\<open>T00:00:00Z\<close>; anything else as it is.
\<close>

datatype shape = MarkedUtc | Unmarked | BareDate | OtherShape

definition shapeOf :: "string \<Rightarrow> shape" where
  "shapeOf ts =
     (if CHR ''T'' \<in> set ts \<and> CHR ''Z'' \<in> set ts then MarkedUtc
      else if CHR ''T'' \<in> set ts then Unmarked
      else if matches_date_only ts then BareDate
      else OtherShape)"

fun readAs :: "shape \<Rightarrow> string \<Rightarrow> string" where
  "readAs MarkedUtc ts = ts"
| "readAs Unmarked ts = ts @ ''Z''"
| "readAs BareDate ts = ts @ ''T00:00:00Z''"
| "readAs OtherShape ts = ts"

text \<open>The log entry for the result of one warning's \<^verbatim>\<open>try\<close> block.\<close>

definition outcomeOf :: "js_error + unit \<Rightarrow> outcome" where
  "outcomeOf r = (case r of Inr u \<Rightarrow> Sent | Inl err \<Rightarrow> Failed (message err))"

text \<open>The extracted events whose identifier is not an identifier of the tracked list.\<close>

definition newAgainst :: "'a warning list \<Rightarrow> 'a warning list \<Rightarrow> 'a warning list" where
  "newAgainst tracked current = filter (\<lambda>w. wid w \<notin> wid ` set tracked) current"

text \<open>The number of network calls a request or cycle has made when, having made \<open>n\<close>,
  it has gone through the dispatches of \<open>ws\<close>.\<close>

fun callsAfter :: "'a net \<Rightarrow> nat \<Rightarrow> 'a warning list \<Rightarrow> nat" where
  "callsAfter net n [] = n"
| "callsAfter net n (w # ws) = callsAfter net (snd (sendWarning net n w)) ws"

text \<open>A scheduler with no cycle in flight and no cycle run yet.\<close>

definition idle :: "'a state \<Rightarrow> 'a scheduler" where
  "idle st = \<lparr> vars = st, inflight = [], sendLogs = [] \<rparr>"

section \<open>Example data\<close>

text \<open>
  A platform for the examples. \<open>newDate\<close> and \<open>toISOString\<close> are tables of the values
  that \<^verbatim>\<open>Date\<close> has in Node.js on the few strings and instants the examples use. The
  other strings the examples hand to \<^verbatim>\<open>Date\<close>, namely \<^verbatim>\<open>2024-05-26T19:00:00-05:00Z\<close> (an
  offset followed by a \<^verbatim>\<open>Z\<close>) and \<^verbatim>\<open>yesterday\<close>, are an \<^verbatim>\<open>Invalid Date\<close> there. The UTC
  fields are those of 2024-05-26T19:00Z, the one instant the examples take apart. No
  example prints a number. Coordinates are rational numbers.
\<close>

definition sample_dates :: "(string \<times> int) list" where
  "sample_dates =
     [(''2024-05-26T19:00:00Z'', 1716750000000),
      (''2024-05-26T19:00:00-05:00'', 1716768000000),
      (''2024-05-26T00:00:00Z'', 1716681600000)]"

definition sample_isos :: "(int \<times> string) list" where
  "sample_isos =
     [(1716750000000, ''2024-05-26T19:00:00.000Z''),
      (1716750002000, ''2024-05-26T19:00:02.000Z''),
      (1716750010000, ''2024-05-26T19:00:10.000Z''),
      (1716750012000, ''2024-05-26T19:00:12.000Z''),
      (1716750040000, ''2024-05-26T19:00:40.000Z''),
      (1716768000000, ''2024-05-27T00:00:00.000Z''),
      (1716681600000, ''2024-05-26T00:00:00.000Z'')]"

definition sample_platform :: "rat platform" where
  "sample_platform =
     \<lparr> newDate = (\<lambda>v. case v of
                           JStr s \<Rightarrow> map_of sample_dates s
                         | JNum n \<Rightarrow> Some n
                         | JBool b \<Rightarrow> Some (if b then 1 else 0)
                         | JNull \<Rightarrow> Some 0
                         | JUndefined \<Rightarrow> None),
       toISOString = (\<lambda>t. case map_of sample_isos t of Some s \<Rightarrow> s | None \<Rightarrow> []),
       getUTCFullYear = (\<lambda>t. 2024),
       getUTCMonth = (\<lambda>t. 4),
       getUTCDate = (\<lambda>t. 26),
       getUTCHours = (\<lambda>t. 19),
       getUTCMinutes = (\<lambda>t. 0),
       numberToString = (\<lambda>x. []) \<rparr>"

text \<open>A tornado-warning record with nothing but its label, and the warning the extractor
  builds from it.\<close>

definition bareFeature :: "string \<Rightarrow> rat feature" where
  "bareFeature i =
     \<lparr> feature_id = JStr i,
       feature_properties = Some [(''ps'', JStr ''Tornado Warning'')],
       feature_geometry = None \<rparr>"

definition bareWarning :: "string \<Rightarrow> rat warning" where
  "bareWarning i =
     \<lparr> wid = JStr i, properties = [(''ps'', JStr ''Tornado Warning'')], geometry = None,
       wfo = JUndefined, eventid = JUndefined, status = JUndefined, issued = JUndefined,
       expires = JUndefined, polygonBegin = JUndefined, polygonEnd = JUndefined,
       windtag = JUndefined, hailtag = JUndefined, tornadotag = JUndefined,
       isPDS = JUndefined, isEmergency = JUndefined, productSignature = JUndefined,
       href = JUndefined, radmapImageUrl = None, plotImageUrl = None, nwstextUrl = None \<rparr>"

definition otherFeature :: "rat feature" where
  "otherFeature =
     \<lparr> feature_id = JStr ''S'',
       feature_properties = Some [(''ps'', JStr ''Severe Thunderstorm Warning'')],
       feature_geometry = None \<rparr>"

definition malformedFeature :: "rat feature" where
  "malformedFeature =
     \<lparr> feature_id = JStr ''N'', feature_properties = None, feature_geometry = None \<rparr>"

definition feedOf :: "string list \<Rightarrow> rat feed option" where
  "feedOf ids = Some \<lparr> features = Features (map (\<lambda>i. Some (bareFeature i)) ids) \<rparr>"

text \<open>The document \<^verbatim>\<open>{"features": [A, null]}\<close>, A being a tornado-warning record; a
  tornado-warning record whose polygon has a string for its \<^verbatim>\<open>coordinates\<close>, and one
  whose ring holds a \<^verbatim>\<open>null\<close> where a position should be.\<close>

definition nullEntryFeed :: "rat feed option" where
  "nullEntryFeed = Some \<lparr> features = Features [Some (bareFeature ''A''), None] \<rparr>"

definition stringCoordinatesFeature :: "rat feature" where
  "stringCoordinatesFeature =
     (bareFeature ''P'') \<lparr> feature_geometry := Some (Polygon NotAnArray) \<rparr>"

definition nullPositionFeature :: "rat feature" where
  "nullPositionFeature =
     (bareFeature ''Q'')
       \<lparr> feature_geometry :=
           Some (Polygon (Coordinates [Array1 [Pos (Finite (- 95)) (Finite 30), NullEntry]])) \<rparr>"

definition trackedState :: "string list \<Rightarrow> rat state" where
  "trackedState ids =
     \<lparr> tornadoWarnings = map bareWarning ids, lastUpdate = None, lastMdIds = {} \<rparr>"

text \<open>A network that answers the feed request with \<open>data\<close>, the RSS request with
  \<open>items\<close>, and rejects exactly the POSTs whose call number satisfies \<open>fails\<close>.\<close>

definition sample_net :: "rat feed option \<Rightarrow> md_item list \<Rightarrow> (nat \<Rightarrow> bool) \<Rightarrow> rat net" where
  "sample_net data items fails =
     \<lparr> get_feed = (\<lambda>n url. Inr data),
       get_text = (\<lambda>n url. Inr (Some [Some ''TORNADO WARNING TEXT''])),
       get_image = (\<lambda>n url. Inr ''PNG''),
       get_rss_items = (\<lambda>n url. Inr (Some items)),
       post_form = (\<lambda>n url f. if fails n then Inl (Error ''Network Error'') else Inr ()) \<rparr>"

definition rectangleRings :: "rat position list list" where
  "rectangleRings = [[(- 955 / 10, 30), (- 95, 30), (- 95, 305 / 10),
                      (- 955 / 10, 305 / 10), (- 955 / 10, 30)]]"

text \<open>A tornado-warning record with the five identification properties, the event number
  being the argument.\<close>

definition identifiedProps :: "jsval \<Rightarrow> props" where
  "identifiedProps etn =
     [(''ps'', JStr ''Tornado Warning''), (''wfo'', JStr ''DMX''), (''year'', JNum 2024),
      (''phenomena'', JStr ''TO''), (''significance'', JStr ''W''), (''eventid'', etn)]"

definition identifiedFeature :: "jsval \<Rightarrow> rat feature" where
  "identifiedFeature etn =
     \<lparr> feature_id = JStr ''X'', feature_properties = Some (identifiedProps etn),
       feature_geometry = None \<rparr>"

text \<open>A warning with a raw-text URL, and a network whose raw-text service answers with a
  product of 1801 characters.\<close>

definition textWarning :: "rat warning" where
  "textWarning =
     (bareWarning ''A'')
       \<lparr> nwstextUrl := Some ''https://mesonet.agron.iastate.edu/json/nwstext.py?product_id=P'' \<rparr>"

definition longTextNet :: "rat net" where
  "longTextNet =
     \<lparr> get_feed = (\<lambda>n url. Inr None),
       get_text = (\<lambda>n url. Inr (Some [Some (replicate 1801 CHR ''x'')])),
       get_image = (\<lambda>n url. Inr ''PNG''),
       get_rss_items = (\<lambda>n url. Inr None),
       post_form = (\<lambda>n url f. Inr ()) \<rparr>"

text \<open>A tornado-warning record \<^verbatim>\<open>T\<close> with a \<^verbatim>\<open>product_id\<close>, so that its dispatch fetches
  the raw text, the warning extracted from it, and a network whose raw-text service
  rejects every request while its webhook accepts every POST.\<close>

definition productFeature :: "rat feature" where
  "productFeature =
     \<lparr> feature_id = JStr ''T'',
       feature_properties = Some [(''ps'', JStr ''Tornado Warning''), (''product_id'', JStr ''P'')],
       feature_geometry = None \<rparr>"

definition productWarning :: "rat warning" where
  "productWarning =
     (bareWarning ''T'')
       \<lparr> properties := [(''ps'', JStr ''Tornado Warning''), (''product_id'', JStr ''P'')],
         nwstextUrl := Some ''https://mesonet.agron.iastate.edu/json/nwstext.py?product_id=P'' \<rparr>"

definition textDownNet :: "rat net" where
  "textDownNet =
     \<lparr> get_feed = (\<lambda>n url. Inr (Some \<lparr> features = Features [Some productFeature] \<rparr>)),
       get_text = (\<lambda>n url. Inl (Error ''text service down'')),
       get_image = (\<lambda>n url. Inr ''PNG''),
       get_rss_items = (\<lambda>n url. Inr None),
       post_form = (\<lambda>n url f. Inr ()) \<rparr>"


text \<open>A discussion item with a guid and no description, and two ticks of the discussion
  cycle over the same two items: on the first the POST of the first item (call 1, after
  the RSS download) is rejected, on the second nothing is.\<close>

definition discussion :: "string \<Rightarrow> md_item" where
  "discussion g =
     \<lparr> guid = Some g, link = ''https://www.spc.noaa.gov/products/md/'' @ g,
       title = ''SPC MD '' @ g, description = None \<rparr>"

definition failingTick :: "rat net" where
  "failingTick = sample_net None [discussion ''0001'', discussion ''0002''] (\<lambda>n. n = 1)"

definition healthyTick :: "rat net" where
  "healthyTick = sample_net None [discussion ''0001'', discussion ''0002''] (\<lambda>n. False)"

section \<open>Traversals that may throw\<close>

lemma map_throwing_total:
  "(\<And>x. x \<in> set xs \<Longrightarrow> \<exists>y. f x = Inr y) \<Longrightarrow> \<exists>ys. map_throwing f xs = Inr ys"
proof (induction xs)
  case Nil
  then show ?case by simp
next
  case (Cons x xs)
  then obtain y where y: "f x = Inr y" by force
  from Cons obtain ys where "map_throwing f xs = Inr ys" by force
  with y show ?case by simp
qed

lemma map_throwing_Inr:
  "map_throwing f xs = Inr ys \<Longrightarrow> list_all2 (\<lambda>x y. f x = Inr y) xs ys"
  by (induction xs arbitrary: ys) (auto split: sum.splits)

lemma map_throwing_Inl:
  "map_throwing f xs = Inl e \<Longrightarrow> \<exists>x \<in> set xs. f x = Inl e"
  by (induction xs) (auto split: sum.splits)

lemma filter_throwing_Inr:
  "filter_throwing f xs = Inr ys \<Longrightarrow>
   (\<forall>x \<in> set xs. \<exists>keep. f x = Inr keep) \<and> ys = filter (\<lambda>x. f x = Inr True) xs"
  by (induction xs arbitrary: ys) (auto split: sum.splits if_splits)

lemma filter_throwing_total:
  "(\<And>x. x \<in> set xs \<Longrightarrow> \<exists>keep. f x = Inr keep) \<Longrightarrow>
   filter_throwing f xs = Inr (filter (\<lambda>x. f x = Inr True) xs)"
proof (induction xs)
  case Nil
  then show ?case by simp
next
  case (Cons x xs)
  then obtain keep where k: "f x = Inr keep" by force
  from Cons have "filter_throwing f xs = Inr (filter (\<lambda>x. f x = Inr True) xs)" by force
  with k show ?case by simp
qed

lemma filter_throwing_Inl:
  "filter_throwing f xs = Inl e \<Longrightarrow> \<exists>x \<in> set xs. f x = Inl e"
  by (induction xs) (auto split: sum.splits)

section \<open>The extractor: what it returns when it returns\<close>

lemma toWarning_source:
  "toWarning pl f = Inr w \<Longrightarrow> sourceFeature w = f"
  by (auto simp: toWarning_def Let_def sourceFeature_def split: option.splits sum.splits)

lemma toWarning_box:
  "toWarning pl f = Inr w \<Longrightarrow> \<exists>bbox. getBoundingBox (feature_geometry f) (2 / 10) = Inr bbox"
  by (auto simp: toWarning_def split: sum.splits)

lemma toWarning_returns:
  assumes "feature_properties f = Some p"
      and "getBoundingBox (feature_geometry f) (2 / 10) = Inr bbox"
  shows "\<exists>w. toWarning pl f = Inr w"
  using assms by (simp add: toWarning_def Let_def)

lemma isTornadoWarning_props:
  "isTornadoWarning f \<Longrightarrow> \<exists>p. feature_properties f = Some p"
  by (auto simp: isTornadoWarning_def split: option.splits)

lemma isTornado_iff:
  "isTornadoWarning f \<longleftrightarrow>
   (\<exists>p. feature_properties f = Some p \<and> getprop p ''ps'' = JStr ''Tornado Warning'')"
  by (auto simp: isTornadoWarning_def split: option.splits)

lemma onEntry_Inr: "onEntry member f entry = Inr y \<Longrightarrow> \<exists>x. entry = Some x \<and> f x = Inr y"
  by (cases entry) auto

lemma kept_entries:
  assumes "filter_throwing (onEntry ''properties'' (\<lambda>feature. Inr (isTornadoWarning feature))) fs
             = Inr kept"
  shows "None \<notin> set fs \<and>
         kept = filter (\<lambda>entry. case entry of None \<Rightarrow> False | Some f \<Rightarrow> isTornadoWarning f) fs"
proof -
  let ?f = "onEntry ''properties'' (\<lambda>feature. Inr (isTornadoWarning feature))"
  from filter_throwing_Inr [OF assms]
  have all: "\<forall>x \<in> set fs. \<exists>keep. ?f x = Inr keep" and k: "kept = filter (\<lambda>x. ?f x = Inr True) fs"
    by auto
  have n: "None \<notin> set fs"
  proof
    assume "None \<in> set fs"
    from bspec [OF all this] show False by simp
  qed
  have "filter (\<lambda>x. ?f x = Inr True) fs =
        filter (\<lambda>entry. case entry of None \<Rightarrow> False | Some f \<Rightarrow> isTornadoWarning f) fs"
    by (rule filter_cong) (auto split: option.splits)
  with k n show ?thesis by simp
qed

text \<open>
  Whenever the extractor returns, it has met no \<^verbatim>\<open>null\<close> entry, and the warnings it
  returns, read back as feed records (identifier, properties, geometry), are the records
  with the label \<^verbatim>\<open>Tornado Warning\<close>, in the order of the feed.
\<close>

lemma extraction_result:
  assumes "parseTornadoWarnings pl (Some \<lparr> features = Features fs \<rparr>) = Inr ws"
  shows "None \<notin> set fs \<and>
         map (\<lambda>w. Some (sourceFeature w)) ws =
           filter (\<lambda>entry. case entry of None \<Rightarrow> False | Some f \<Rightarrow> isTornadoWarning f) fs"
proof -
  from assms obtain kept where
    k: "filter_throwing (onEntry ''properties'' (\<lambda>feature. Inr (isTornadoWarning feature))) fs
          = Inr kept" and
    m: "map_throwing (onEntry ''geometry'' (toWarning pl)) kept = Inr ws"
    by (auto simp: parseTornadoWarnings_def split: sum.splits)
  from map_throwing_Inr [OF m]
  have "list_all2 (\<lambda>x y. Some (sourceFeature y) = x) kept ws"
    by (rule list_all2_mono) (auto dest!: onEntry_Inr simp: toWarning_source)
  then have "map (\<lambda>w. Some (sourceFeature w)) ws = kept"
    by (induction rule: list_all2_induct) auto
  with kept_entries [OF k] show ?thesis by simp
qed

text \<open>
  The extractor returns for every feed whose entries are records (none is \<^verbatim>\<open>null\<close>)
  and in which the box of every record with the label can be computed; records with
  another label, with no label or with no properties object do not stand in its way.
\<close>

lemma extraction_returns:
  assumes "None \<notin> set fs"
      and "\<forall>f. Some f \<in> set fs \<and> isTornadoWarning f \<longrightarrow>
               (\<exists>bbox. getBoundingBox (feature_geometry f) (2 / 10) = Inr bbox)"
  shows "\<exists>ws. parseTornadoWarnings pl (Some \<lparr> features = Features fs \<rparr>) = Inr ws"
proof -
  let ?f = "onEntry ''properties'' (\<lambda>feature. Inr (isTornadoWarning feature))"
  have "\<exists>keep. ?f x = Inr keep" if "x \<in> set fs" for x
    by (cases x) (use that assms(1) in auto)
  then have k: "filter_throwing ?f fs = Inr (filter (\<lambda>x. ?f x = Inr True) fs)"
    by (rule filter_throwing_total)
  have "\<exists>w. onEntry ''geometry'' (toWarning pl) x = Inr w"
    if mem: "x \<in> set (filter (\<lambda>x. ?f x = Inr True) fs)" for x
  proof -
    obtain f where f: "x = Some f" "Some f \<in> set fs" "isTornadoWarning f"
      by (cases x) (use mem in auto)
    with assms(2) obtain bbox where "getBoundingBox (feature_geometry f) (2 / 10) = Inr bbox"
      by blast
    moreover from f obtain p where "feature_properties f = Some p"
      using isTornadoWarning_props by blast
    ultimately show ?thesis using f toWarning_returns [of f p bbox pl] by simp
  qed
  then obtain ws where
    "map_throwing (onEntry ''geometry'' (toWarning pl)) (filter (\<lambda>x. ?f x = Inr True) fs) = Inr ws"
    using map_throwing_total by blast
  with k show ?thesis by (simp add: parseTornadoWarnings_def)
qed

lemma parse_members:
  assumes "parseTornadoWarnings pl d = Inr ws" and "w \<in> set ws"
  shows "\<exists>f. toWarning pl f = Inr w"
proof -
  have *: "\<exists>f. toWarning pl f = Inr w"
    if "map_throwing (onEntry ''geometry'' (toWarning pl)) xs = Inr ws" for xs
  proof -
    from that have "list_all2 (\<lambda>x y. onEntry ''geometry'' (toWarning pl) x = Inr y) xs ws"
      by (rule map_throwing_Inr)
    with \<open>w \<in> set ws\<close> obtain x where "onEntry ''geometry'' (toWarning pl) x = Inr w"
      by (auto simp: list_all2_conv_all_nth in_set_conv_nth)
    then show ?thesis by (auto dest: onEntry_Inr)
  qed
  from assms show ?thesis
    by (auto simp: parseTornadoWarnings_def split: option.splits sum.splits feature_array.splits
             dest: *)
qed

subsection \<open>Facts about the example data\<close>

lemma box_none: "getBoundingBox None m = Inr None"
  by (simp add: getBoundingBox_def)

lemma toWarning_bare: "toWarning pl (bareFeature i) = Inr (bareWarning i)"
  by (simp add: toWarning_def bareFeature_def bareWarning_def getprop_def box_none)

lemma isTornado_bare: "isTornadoWarning (bareFeature i)"
  by (simp add: isTornadoWarning_def bareFeature_def getprop_def)

lemma filter_throwing_bare:
  "filter_throwing (onEntry ''properties'' (\<lambda>feature. Inr (isTornadoWarning feature)))
     (map (\<lambda>i. Some (bareFeature i)) ids) = Inr (map (\<lambda>i. Some (bareFeature i)) ids)"
  by (induction ids) (simp_all add: isTornado_bare)

lemma map_throwing_bare:
  "map_throwing (onEntry ''geometry'' (toWarning pl)) (map (\<lambda>i. Some (bareFeature i)) ids) =
     Inr (map bareWarning ids)"
  by (induction ids) (simp_all add: toWarning_bare)

lemma parse_feedOf: "parseTornadoWarnings pl (feedOf ids) = Inr (map bareWarning ids)"
  by (simp add: parseTornadoWarnings_def feedOf_def filter_throwing_bare map_throwing_bare)

lemma fetch_sample:
  "fetchCurrentWarnings sample_platform (sample_net data items fails) n t = data"
  by (simp add: fetchCurrentWarnings_def sample_net_def Let_def)

lemma iso_sample:
  "toISOString sample_platform 1716750000000 = ''2024-05-26T19:00:00.000Z''"
  "toISOString sample_platform 1716750002000 = ''2024-05-26T19:00:02.000Z''"
  "toISOString sample_platform 1716750010000 = ''2024-05-26T19:00:10.000Z''"
  "toISOString sample_platform 1716750012000 = ''2024-05-26T19:00:12.000Z''"
  "toISOString sample_platform 1716750040000 = ''2024-05-26T19:00:40.000Z''"
  by (simp_all add: sample_platform_def sample_isos_def)

section \<open>The timestamp normaliser\<close>

text \<open>
  What the normaliser computes, on every platform: it tells the shape of its input by
  its characters alone (\<open>shapeOf\<close>), reads the input under the one rule of that shape
  (\<open>readAs\<close>), returns the canonical string of the instant that this reading gives,
  and fails exactly when this one reading is no valid instant.
\<close>

lemma timestamp_normalised_by_shape:
  "(\<forall>t. newDate pl (JStr (readAs (shapeOf ts) ts)) = Some t \<longrightarrow>
        validateAndFormatTimestamp pl ts = Inr (toISOString pl t)) \<and>
   (newDate pl (JStr (readAs (shapeOf ts) ts)) = None \<longrightarrow>
        validateAndFormatTimestamp pl ts = Inl (Error (''Invalid timestamp format: '' @ ts))) \<and>
   ((\<exists>e. validateAndFormatTimestamp pl ts = Inl e) \<longleftrightarrow>
        newDate pl (JStr (readAs (shapeOf ts) ts)) = None)"
  by (auto simp: validateAndFormatTimestamp_def shapeOf_def str_includes_def Let_def
           split: option.splits)

text \<open>The timestamp with the UTC marker is read as it is, the one without it and the
  bare date are read as UTC.\<close>

lemma timestamp_accepted_examples:
  "validateAndFormatTimestamp sample_platform ''2024-05-26T19:00:00Z'' =
     Inr ''2024-05-26T19:00:00.000Z'' \<and>
   validateAndFormatTimestamp sample_platform ''2024-05-26T19:00:00'' =
     Inr ''2024-05-26T19:00:00.000Z'' \<and>
   validateAndFormatTimestamp sample_platform ''2024-05-26'' =
     Inr ''2024-05-26T00:00:00.000Z''"
  by (simp add: validateAndFormatTimestamp_def str_includes_def is_digit_def
        sample_platform_def sample_dates_def sample_isos_def)

text \<open>
  Claim C3. The claim has the normaliser return the canonical UTC string for every
  input that is parseable as a timestamp, and fail only when the input parses to no
  valid instant under any rule. The code departs from it: the branch commented
  \<^verbatim>\<open>ISO8601 without timezone, assume UTC\<close> is taken by every string that contains a
  \<^verbatim>\<open>T\<close> and no \<^verbatim>\<open>Z\<close>. The string \<^verbatim>\<open>2024-05-26T19:00:00-05:00\<close> is ISO-8601 with a
  time zone and parses as it is (to midnight UTC of the next day), but the code hands
  \<^verbatim>\<open>2024-05-26T19:00:00-05:00Z\<close> to \<^verbatim>\<open>Date\<close>, gets an invalid date, and throws.
\<close>

theorem timestamp_with_offset_rejected:
  "newDate sample_platform (JStr ''2024-05-26T19:00:00-05:00'') = Some 1716768000000 \<and>
   toISOString sample_platform 1716768000000 = ''2024-05-27T00:00:00.000Z'' \<and>
   shapeOf ''2024-05-26T19:00:00-05:00'' = Unmarked \<and>
   validateAndFormatTimestamp sample_platform ''2024-05-26T19:00:00-05:00'' =
     Inl (Error ''Invalid timestamp format: 2024-05-26T19:00:00-05:00'')"
  by (simp add: validateAndFormatTimestamp_def str_includes_def shapeOf_def
        sample_platform_def sample_dates_def sample_isos_def)

section \<open>The filter of the extractor\<close>

text \<open>A feed of four records, the second with another label and the third without a
  properties object: the first and the fourth are kept, in that order, and nothing is
  raised.\<close>

lemma extraction_skips_unlabelled:
  "map_sum id (map sourceFeature)
     (parseTornadoWarnings sample_platform
        (Some \<lparr> features = Features [Some (bareFeature ''A''), Some otherFeature,
                                      Some malformedFeature, Some (bareFeature ''C'')] \<rparr>)) =
   Inr [bareFeature ''A'', bareFeature ''C'']"
  by (simp add: parseTornadoWarnings_def isTornadoWarning_def toWarning_def box_none
        sourceFeature_def bareFeature_def otherFeature_def malformedFeature_def getprop_def)

text \<open>
  Claim C7. The extractor keeps the records with the label \<^verbatim>\<open>Tornado Warning\<close> in the
  order of the feed (\<open>extraction_result\<close>), and it skips a record with another label,
  with no label or with no properties object (\<open>extraction_returns\<close>,
  \<open>extraction_skips_unlabelled\<close>). It does not skip every malformed record, as the claim
  has it. The filter reads \<^verbatim>\<open>feature.properties\<close> of every entry and guards the
  properties, not the entry: on the feed \<^verbatim>\<open>{"features": [A, null]}\<close> the extraction is
  aborted by a \<^verbatim>\<open>TypeError\<close> and the well-formed record A is lost with it. The same
  happens for a record with the label whose polygon has \<^verbatim>\<open>coordinates\<close> that are a
  string (no method \<^verbatim>\<open>flat\<close>), or a ring with a \<^verbatim>\<open>null\<close> where a position should be.
\<close>

theorem null_entry_aborts_extraction:
  "parseTornadoWarnings sample_platform
     (Some \<lparr> features = Features [Some (bareFeature ''A''), None] \<rparr>) =
     Inl (TypeError ''Cannot read properties of null (reading 'properties')'') \<and>
   parseTornadoWarnings sample_platform
     (Some \<lparr> features = Features [Some (bareFeature ''A''), Some stringCoordinatesFeature] \<rparr>) =
     Inl (TypeError ''geometry.coordinates.flat is not a function'') \<and>
   parseTornadoWarnings sample_platform
     (Some \<lparr> features = Features [Some (bareFeature ''A''), Some nullPositionFeature] \<rparr>) =
     Inl (TypeError ''Cannot read properties of null (reading '1')'')"
  by (simp add: parseTornadoWarnings_def isTornadoWarning_def toWarning_def box_none
        getBoundingBox_def flat1_def bareFeature_def stringCoordinatesFeature_def
        nullPositionFeature_def getprop_def)

section \<open>The bounding box\<close>

lemma fold_js_min_finite:
  "fold js_min (map Finite xs) (Finite a) = Finite (fold min xs a)"
  by (induction xs arbitrary: a) simp_all

lemma fold_js_max_finite:
  "fold js_max (map Finite xs) (Finite a) = Finite (fold max xs a)"
  by (induction xs arbitrary: a) simp_all

lemma math_min_Min: "xs \<noteq> [] \<Longrightarrow> math_min (map Finite xs) = Finite (Min (set xs))"
proof (cases xs)
  case Nil
  assume "xs \<noteq> []"
  with Nil show ?thesis by simp
next
  case (Cons a list)
  have "math_min (map Finite (a # list)) = Finite (fold min list a)"
    by (simp add: math_min_def fold_js_min_finite)
  with Cons show ?thesis by (simp only: Min.set_eq_fold)
qed

lemma math_max_Max: "xs \<noteq> [] \<Longrightarrow> math_max (map Finite xs) = Finite (Max (set xs))"
proof (cases xs)
  case Nil
  assume "xs \<noteq> []"
  with Nil show ?thesis by simp
next
  case (Cons a list)
  have "math_max (map Finite (a # list)) = Finite (fold max list a)"
    by (simp add: math_max_def fold_js_max_finite)
  with Cons show ?thesis by (simp only: Max.set_eq_fold)
qed

lemma math_min_image: "cs \<noteq> [] \<Longrightarrow> math_min (map (Finite \<circ> f) cs) = Finite (Min (f ` set cs))"
  using math_min_Min [of "map f cs"] by simp

lemma math_max_image: "cs \<noteq> [] \<Longrightarrow> math_max (map (Finite \<circ> f) cs) = Finite (Max (f ` set cs))"
  using math_max_Max [of "map f cs"] by simp

lemma index1_positions:
  "map_throwing index1 (map positionJson cs) = Inr (map Finite (map snd cs))"
  by (induction cs) (simp_all add: positionJson_def)

lemma index0_positions:
  "map_throwing index0 (map positionJson cs) = Inr (map Finite (map fst cs))"
  by (induction cs) (simp_all add: positionJson_def)

lemma bbox_of_coords:
  assumes "flat_coords g = Inr (Some (map positionJson cs))" and "cs \<noteq> []"
  shows "getBoundingBox (Some g) m =
         Inr (Some \<lparr> xmin = Finite (Min (fst ` set cs) - m),
                     ymin = Finite (Min (snd ` set cs) - m),
                     xmax = Finite (Max (fst ` set cs) + m),
                     ymax = Finite (Max (snd ` set cs) + m) \<rparr>)"
  using assms
  by (simp add: getBoundingBox_def index1_positions index0_positions math_min_image
        math_max_image)

lemma flat1_rings: "flat1 (ringsJson rings) = map positionJson (concat rings)"
  by (induction rings) (simp_all add: flat1_def ringsJson_def)

lemma flat2_polygons: "flat2 (polygonsJson polys) = map positionJson (concat (concat polys))"
  by (induction polys) (simp_all add: flat2_def polygonsJson_def flat1_rings)

lemma set_concat_points: "set (concat rings) = polygonPoints rings"
  by (auto simp: polygonPoints_def)

lemma set_concat2_points: "set (concat (concat polys)) = multiPolygonPoints polys"
  by (auto simp: multiPolygonPoints_def polygonPoints_def)

lemma bbox_polygon:
  "polygonPoints rings \<noteq> {} \<Longrightarrow>
   getBoundingBox (Some (Polygon (Coordinates (ringsJson rings)))) m =
     Inr (Some (paddedBox (polygonPoints rings) m))"
  using bbox_of_coords [of "Polygon (Coordinates (ringsJson rings))" "concat rings" m]
  by (auto simp: set_concat_points [symmetric] paddedBox_def flat1_rings simp del: set_concat)

lemma bbox_multipolygon:
  "multiPolygonPoints polys \<noteq> {} \<Longrightarrow>
   getBoundingBox (Some (MultiPolygon (Coordinates (polygonsJson polys)))) m =
     Inr (Some (paddedBox (multiPolygonPoints polys) m))"
  using bbox_of_coords [of "MultiPolygon (Coordinates (polygonsJson polys))"
                           "concat (concat polys)" m]
  by (auto simp: set_concat2_points [symmetric] paddedBox_def flat2_polygons
           simp del: set_concat)

lemma toWarning_radmap:
  assumes "toWarning pl f = Inr w"
  shows "\<exists>bbox. getBoundingBox (feature_geometry f) (2 / 10) = Inr bbox \<and>
           radmapImageUrl w =
             (case bbox of
                None \<Rightarrow> None
              | Some b \<Rightarrow> if truthy (issued w) then Some (radmapUrl pl b (issued w)) else None)"
  using assms by (auto simp: toWarning_def Let_def split: option.splits sum.splits)

lemma rectangle_points:
  "polygonPoints rectangleRings =
     {(- 955 / 10, 30), (- 95, 30), (- 95, 305 / 10), (- 955 / 10, 305 / 10)}"
  by (auto simp: polygonPoints_def rectangleRings_def)

text \<open>
  Claim C5. For a polygon or multi-polygon with at least one coordinate pair, the box
  that \<^verbatim>\<open>getBoundingBox\<close> computes is the minimum and maximum of the longitudes and of the
  latitudes of all its coordinate pairs, each side moved outward by the margin; the
  extractor calls it with the margin 0.2 and puts that box into the radar-map URL.
  Numbers are those of an ordered field: the rounding of floating-point subtraction and
  addition is not modelled.
\<close>

theorem bounding_box_is_padded_extent:
  "(polygonPoints rings \<noteq> {} \<longrightarrow>
      getBoundingBox (Some (Polygon (Coordinates (ringsJson rings)))) m =
        Inr (Some (paddedBox (polygonPoints rings) m))) \<and>
   (multiPolygonPoints polys \<noteq> {} \<longrightarrow>
      getBoundingBox (Some (MultiPolygon (Coordinates (polygonsJson polys)))) m =
        Inr (Some (paddedBox (multiPolygonPoints polys) m))) \<and>
   (toWarning pl f = Inr w \<longrightarrow>
      (\<exists>bbox. getBoundingBox (feature_geometry f) (2 / 10) = Inr bbox \<and>
         radmapImageUrl w =
           (case bbox of
              None \<Rightarrow> None
            | Some b \<Rightarrow> if truthy (issued w) then Some (radmapUrl pl b (issued w)) else None)))"
  using bbox_polygon [of rings m] bbox_multipolygon [of polys m] toWarning_radmap [of pl f w]
  by blast

text \<open>The rectangle with longitudes from -95.5 to -95 and latitudes from 30 to 30.5: its
  box runs from -95.7 to -94.8 and from 29.8 to 30.7.\<close>

theorem bounding_box_witness:
  "polygonPoints rectangleRings \<noteq> {} \<and>
   ringsJson rectangleRings =
     [Array1 [Pos (Finite (- 955 / 10)) (Finite 30), Pos (Finite (- 95)) (Finite 30),
              Pos (Finite (- 95)) (Finite (305 / 10)),
              Pos (Finite (- 955 / 10)) (Finite (305 / 10)),
              Pos (Finite (- 955 / 10)) (Finite 30)]] \<and>
   getBoundingBox (Some (Polygon (Coordinates (ringsJson rectangleRings)))) (2 / 10) =
     Inr (Some \<lparr> xmin = Finite (- 957 / 10), ymin = Finite (298 / 10),
                 xmax = Finite (- 948 / 10), ymax = Finite (307 / 10) \<rparr>)"
proof -
  have ne: "polygonPoints rectangleRings \<noteq> {}" by (simp add: rectangle_points)
  have js: "ringsJson rectangleRings =
     [Array1 [Pos (Finite (- 955 / 10)) (Finite 30), Pos (Finite (- 95)) (Finite 30),
              Pos (Finite (- 95)) (Finite (305 / 10)),
              Pos (Finite (- 955 / 10)) (Finite (305 / 10)),
              Pos (Finite (- 955 / 10)) (Finite 30)]]"
    by (simp add: ringsJson_def rectangleRings_def positionJson_def)
  have "getBoundingBox (Some (Polygon (Coordinates (ringsJson rectangleRings)))) (2 / 10) =
        Inr (Some (paddedBox (polygonPoints rectangleRings) (2 / 10)))"
    using bounding_box_is_padded_extent [of rectangleRings "2 / 10"] ne by blast
  then have "getBoundingBox (Some (Polygon (Coordinates (ringsJson rectangleRings)))) (2 / 10) =
     Inr (Some \<lparr> xmin = Finite (- 957 / 10), ymin = Finite (298 / 10),
                 xmax = Finite (- 948 / 10), ymax = Finite (307 / 10) \<rparr>)"
    by (simp add: rectangle_points paddedBox_def)
  with ne js show ?thesis by blast
qed

section \<open>The plot-image URL\<close>

lemma toWarning_plot:
  assumes "toWarning pl f = Inr w"
  shows "plotImageUrl w =
           (if truthy (getprop (properties w) ''wfo'') \<and>
               truthy (getprop (properties w) ''year'') \<and>
               truthy (getprop (properties w) ''phenomena'') \<and>
               truthy (getprop (properties w) ''significance'') \<and>
               truthy (getprop (properties w) ''eventid'')
            then Some (plotUrl (properties w)) else None)"
  using assms by (auto simp: toWarning_def Let_def split: option.splits sum.splits)

text \<open>
  Claim C4, as stated, fails. A record carries all five identification properties, the
  event number being the number 0: the test of the extractor is a truthiness test, 0 is
  falsy, and no plot-image URL is emitted.
\<close>

theorem plot_url_counterexample:
  "map (map_of (identifiedProps (JNum 0))) plotKeys =
     [Some (JStr ''DMX''), Some (JNum 2024), Some (JStr ''TO''), Some (JStr ''W''),
      Some (JNum 0)] \<and>
   map_sum id (map plotImageUrl)
     (parseTornadoWarnings sample_platform
        (Some \<lparr> features = Features [Some (identifiedFeature (JNum 0))] \<rparr>)) = Inr [None]"
  by (simp add: parseTornadoWarnings_def isTornadoWarning_def identifiedFeature_def
        toWarning_def box_none Let_def identifiedProps_def getprop_def plotKeys_def)

text \<open>
  Claim C4, amended. For every warning the extractor returns, a plot-image URL is
  emitted if and only if all five identification properties are truthy, that is present
  and neither \<^verbatim>\<open>null\<close>, \<^verbatim>\<open>false\<close>, 0 nor the empty string. An emitted URL is the whole
  template with the five values in place, never a part of it; a record from which any
  one of the five is missing gets no URL.
\<close>

theorem plot_url_iff_all_truthy:
  assumes "parseTornadoWarnings pl d = Inr ws" and "w \<in> set ws"
  shows "(plotImageUrl w \<noteq> None \<longleftrightarrow>
            (\<forall>k \<in> set plotKeys. truthy (getprop (properties w) k))) \<and>
         (plotImageUrl w \<noteq> None \<longrightarrow> plotImageUrl w = Some (plotUrl (properties w))) \<and>
         (\<forall>k \<in> set plotKeys. getprop (properties w) k = JUndefined \<longrightarrow>
            plotImageUrl w = None)"
proof -
  obtain f where "toWarning pl f = Inr w" using assms parse_members by blast
  then show ?thesis
    by (auto simp: toWarning_plot plotKeys_def)
qed

lemma parse_identified:
  "\<exists>w. parseTornadoWarnings sample_platform
          (Some \<lparr> features = Features [Some (identifiedFeature etn)] \<rparr>) = Inr [w] \<and>
        properties w = identifiedProps etn"
  by (simp add: parseTornadoWarnings_def isTornadoWarning_def identifiedFeature_def
        toWarning_def box_none Let_def identifiedProps_def getprop_def)

text \<open>The record with event number 45 gets the complete URL.\<close>

theorem plot_url_witness:
  "\<exists>w. parseTornadoWarnings sample_platform
          (Some \<lparr> features = Features [Some (identifiedFeature (JNum 45))] \<rparr>) = Inr [w] \<and>
        w \<in> set [w] \<and>
        plotImageUrl w =
          Some ''https://mesonet.agron.iastate.edu/plotting/auto/plot/208/network:WFO::wfo:DMX::year:2024::phenomenav:TO::significancev:W::etn:45::opt:single::n:auto::_r:88::dpi:200.png''"
proof -
  obtain w where
    p: "parseTornadoWarnings sample_platform
          (Some \<lparr> features = Features [Some (identifiedFeature (JNum 45))] \<rparr>) = Inr [w]" and
    q: "properties w = identifiedProps (JNum 45)"
    using parse_identified by blast
  have t: "\<forall>k \<in> set plotKeys. truthy (getprop (properties w) k)"
    by (simp add: q plotKeys_def identifiedProps_def getprop_def)
  have "w \<in> set [w]" by simp
  from plot_url_iff_all_truthy [OF p this] t
  have "plotImageUrl w = Some (plotUrl (properties w))" by blast
  then have "plotImageUrl w =
          Some ''https://mesonet.agron.iastate.edu/plotting/auto/plot/208/network:WFO::wfo:DMX::year:2024::phenomenav:TO::significancev:W::etn:45::opt:single::n:auto::_r:88::dpi:200.png''"
    by (simp add: q plotUrl_def identifiedProps_def getprop_def show_int_def show_nat.simps)
  with p show ?thesis by auto
qed

section \<open>The dispatch loop\<close>

lemma dispatchNew_attempts: "map fst (dispatchNew net n ws) = ws"
  by (induction ws arbitrary: n) (auto split: prod.splits sum.splits)

lemma length_dispatchNew: "length (dispatchNew net n ws) = length ws"
  using dispatchNew_attempts [of net n ws] by (metis length_map)

lemma dispatchNew_Cons:
  "dispatchNew net n (w # ws) =
     (w, outcomeOf (fst (sendWarning net n w))) # dispatchNew net (snd (sendWarning net n w)) ws"
  by (auto simp: outcomeOf_def split: prod.splits sum.splits)

lemma dispatchNew_entry:
  "dispatchNew net n (pre @ w # rest) ! length pre =
     (w, outcomeOf (fst (sendWarning net (callsAfter net n pre) w)))"
  by (induction pre arbitrary: n) (simp_all add: dispatchNew_Cons del: dispatchNew.simps)

lemma sendWarning_posts:
  assumes "fetchRawText net n w = (Inr textData, n1)"
      and "fetchPlotImage net n1 w = (Inr imageBuffer, n2)"
  shows "fst (sendWarning net n w) =
           post_form net n2 TORNADO_WEBHOOK
             \<lparr> content = warningContent w textData,
               file_part = map_option (\<lambda>b. (b, ''plot.png'')) imageBuffer \<rparr>"
  using assms by (simp add: sendWarning_def)

lemma sendWarning_text_failed:
  "fetchRawText net n w = (Inl err, n1) \<Longrightarrow> fst (sendWarning net n w) = Inl err"
  by (simp add: sendWarning_def)

lemma sendWarning_image_failed:
  "fetchRawText net n w = (Inr textData, n1) \<Longrightarrow> fetchPlotImage net n1 w = (Inl err, n2) \<Longrightarrow>
   fst (sendWarning net n w) = Inl err"
  by (simp add: sendWarning_def)

lemma send_bare:
  "sendWarning (sample_net data items fails) n (bareWarning i) =
     (if fails n then Inl (Error ''Network Error'') else Inr (), n + 1)"
  by (simp add: sendWarning_def fetchRawText_def fetchPlotImage_def bareWarning_def sample_net_def)

lemma post_sample:
  "post_form (sample_net data items fails) n url f =
     (if fails n then Inl (Error ''Network Error'') else Inr ())"
  by (simp add: sample_net_def)

section \<open>The scheduled tornado-warning cycle\<close>



lemma begin_fetched:
  "fetchCurrentWarnings pl net 0 now = Some d \<Longrightarrow> parseTornadoWarnings pl (Some d) = Inr current \<Longrightarrow>
   beginCycle pl net now st =
     Inr (Some (current, dispatchNew net 1 (newAgainst (tornadoWarnings st) current)))"
  by (simp add: beginCycle_def newAgainst_def Let_def)



lemma monitor_fetched:
  "fetchCurrentWarnings pl net 0 now = Some d \<Longrightarrow> parseTornadoWarnings pl (Some d) = Inr current \<Longrightarrow>
   monitorTornadoWarnings pl net now later st =
     Inr (st \<lparr> tornadoWarnings := current, lastUpdate := Some (toISOString pl later) \<rparr>,
          dispatchNew net 1 (newAgainst (tornadoWarnings st) current))"
  by (simp add: monitorTornadoWarnings_def begin_fetched endCycle_def)


subsection \<open>Runs in which no two cycles overlap\<close>

text \<open>
  A cycle that begins while none is in flight and ends before anything else happens is
  \<open>monitorTornadoWarnings\<close>, and a run made of such cycles is \<open>runTornado\<close>.
\<close>

lemma begin_then_end:
  assumes "inflight r = []"
  shows "runEvents pl r [Begin net now later, End 0 later] =
           (case monitorTornadoWarnings pl net now later (vars r) of
              Inl err \<Rightarrow> r \<lparr> sendLogs := sendLogs r @ [[]] \<rparr>
            | Inr (st1, sendLog) \<Rightarrow> r \<lparr> vars := st1, sendLogs := sendLogs r @ [sendLog] \<rparr>)"
proof (cases "beginCycle pl net now (vars r)")
  case (Inl err)
  with assms show ?thesis by (simp add: runEvents_def monitorTornadoWarnings_def)
next
  case (Inr result)
  show ?thesis
  proof (cases result)
    case None
    with Inr assms show ?thesis by (simp add: runEvents_def monitorTornadoWarnings_def)
  next
    case (Some pair)
    obtain current sendLog where pair: "pair = (current, sendLog)" by (cases pair)
    show ?thesis
    proof (cases sendLog)
      case Nil
      with Inr Some pair assms show ?thesis
        by (simp add: runEvents_def monitorTornadoWarnings_def)
    next
      case (Cons entry entries)
      with Inr Some pair assms show ?thesis
        by (simp add: runEvents_def monitorTornadoWarnings_def)
    qed
  qed
qed

lemma runEvents_append:
  "runEvents pl r (es @ es') = runEvents pl (runEvents pl r es) es'"
  by (simp add: runEvents_def)

lemma oneAfterAnother_Cons:
  "oneAfterAnother ((net, now, later) # ticks) =
     [Begin net now later, End 0 later] @ oneAfterAnother ticks"
  by (simp add: oneAfterAnother_def)

lemma oneAfterAnother_append:
  "oneAfterAnother (ticks @ ticks') = oneAfterAnother ticks @ oneAfterAnother ticks'"
  by (simp add: oneAfterAnother_def)

lemma no_overlap_run:
  assumes "inflight r = []"
  shows "runEvents pl r (oneAfterAnother ticks) =
           r \<lparr> vars := fst (runTornado pl (vars r) ticks),
               sendLogs := sendLogs r @ snd (runTornado pl (vars r) ticks) \<rparr>"
  using assms
proof (induction ticks arbitrary: r)
  case Nil
  then show ?case by (simp add: oneAfterAnother_def runEvents_def)
next
  case (Cons tick ticks)
  obtain net now later where tick: "tick = (net, now, later)" by (cases tick) auto
  let ?r1 = "runEvents pl r [Begin net now later, End 0 later]"
  have unfold: "runEvents pl r (oneAfterAnother (tick # ticks)) =
                runEvents pl ?r1 (oneAfterAnother ticks)"
    by (simp only: tick oneAfterAnother_Cons runEvents_append)
  show ?case
  proof (cases "monitorTornadoWarnings pl net now later (vars r)")
    case (Inl err)
    let ?r2 = "r \<lparr> sendLogs := sendLogs r @ [[]] \<rparr>"
    have r1: "?r1 = ?r2"
      using Inl begin_then_end [OF Cons.prems, of pl net now later] by simp
    have "runEvents pl r (oneAfterAnother (tick # ticks)) = runEvents pl ?r2 (oneAfterAnother ticks)"
      using unfold r1 by simp
    also have "\<dots> = ?r2 \<lparr> vars := fst (runTornado pl (vars ?r2) ticks),
                          sendLogs := sendLogs ?r2 @ snd (runTornado pl (vars ?r2) ticks) \<rparr>"
      by (rule Cons.IH) (simp add: Cons.prems)
    finally show ?thesis using Inl tick by (simp add: split_beta)
  next
    case (Inr pair)
    obtain st1 sendLog where pair: "pair = (st1, sendLog)" by (cases pair)
    let ?r2 = "r \<lparr> vars := st1, sendLogs := sendLogs r @ [sendLog] \<rparr>"
    have r1: "?r1 = ?r2"
      using Inr pair begin_then_end [OF Cons.prems, of pl net now later] by simp
    have "runEvents pl r (oneAfterAnother (tick # ticks)) = runEvents pl ?r2 (oneAfterAnother ticks)"
      using unfold r1 by simp
    also have "\<dots> = ?r2 \<lparr> vars := fst (runTornado pl (vars ?r2) ticks),
                          sendLogs := sendLogs ?r2 @ snd (runTornado pl (vars ?r2) ticks) \<rparr>"
      by (rule Cons.IH) (simp add: Cons.prems)
    finally show ?thesis using Inr pair tick by (simp add: split_beta)
  qed
qed

lemma no_overlap_inflight: "inflight (runEvents pl (idle st) (oneAfterAnother ticks)) = []"
  using no_overlap_run [of "idle st" pl ticks] by (simp add: idle_def)


lemma no_overlap_vars:
  "vars (runEvents pl (idle st) (oneAfterAnother ticks)) = fst (runTornado pl st ticks)"
  using no_overlap_run [of "idle st" pl ticks] by (simp add: idle_def)

text \<open>In a run without overlap, the cycle that follows a run of cycles compares its
  extraction with the variables this run has left, and its log is added to the logs.\<close>

lemma no_overlap_next:
  assumes "fetchCurrentWarnings pl net 0 now = Some d"
      and "parseTornadoWarnings pl (Some d) = Inr current"
  shows "sendLogs (runEvents pl (idle st0) (oneAfterAnother (ticks @ [(net, now, later)]))) =
           sendLogs (runEvents pl (idle st0) (oneAfterAnother ticks)) @
           [dispatchNew net 1
              (newAgainst (tornadoWarnings (vars (runEvents pl (idle st0) (oneAfterAnother ticks))))
                 current)]"
proof -
  let ?r = "runEvents pl (idle st0) (oneAfterAnother ticks)"
  have "runEvents pl (idle st0) (oneAfterAnother (ticks @ [(net, now, later)])) =
        runEvents pl ?r [Begin net now later, End 0 later]"
    by (simp add: oneAfterAnother_append runEvents_append) (simp add: oneAfterAnother_def)
  also have "\<dots> = ?r \<lparr> vars := vars ?r \<lparr> tornadoWarnings := current,
                                         lastUpdate := Some (toISOString pl later) \<rparr>,
                        sendLogs := sendLogs ?r @
                          [dispatchNew net 1 (newAgainst (tornadoWarnings (vars ?r)) current)] \<rparr>"
    using begin_then_end [of ?r pl net now later] no_overlap_inflight [of pl st0 ticks]
      monitor_fetched [OF assms, of later "vars ?r"]
    by simp
  finally show ?thesis by simp
qed

subsection \<open>Facts about the example data\<close>

lemma wid_bare: "wid (bareWarning i) = JStr i"
  by (simp add: bareWarning_def)

lemma begin_sample:
  "beginCycle sample_platform (sample_net (feedOf ids) items fails) now st =
     Inr (Some (map bareWarning ids,
                dispatchNew (sample_net (feedOf ids) items fails) 1
                  (newAgainst (tornadoWarnings st) (map bareWarning ids))))"
  using begin_fetched [of sample_platform "sample_net (feedOf ids) items fails" now
          "\<lparr> features = Features (map (\<lambda>i. Some (bareFeature i)) ids) \<rparr>" "map bareWarning ids" st]
    parse_feedOf [of sample_platform ids]
  by (simp add: fetch_sample feedOf_def)

lemma monitor_sample:
  "monitorTornadoWarnings sample_platform (sample_net (feedOf ids) items fails) now
     1716750000000 st =
     Inr (st \<lparr> tornadoWarnings := map bareWarning ids,
               lastUpdate := Some ''2024-05-26T19:00:00.000Z'' \<rparr>,
          dispatchNew (sample_net (feedOf ids) items fails) 1
            (newAgainst (tornadoWarnings st) (map bareWarning ids)))"
  by (simp add: monitorTornadoWarnings_def begin_sample endCycle_def iso_sample)


lemma toWarning_product: "toWarning sample_platform productFeature = Inr productWarning"
  by (simp add: toWarning_def productFeature_def productWarning_def bareWarning_def getprop_def
        box_none)

lemma monitor_text_down:
  "monitorTornadoWarnings sample_platform textDownNet 1716750000000 1716750000000
     (trackedState []) =
     Inr (\<lparr> tornadoWarnings = [productWarning],
             lastUpdate = Some ''2024-05-26T19:00:00.000Z'', lastMdIds = {} \<rparr>,
          [(productWarning, Failed ''text service down'')])"
proof -
  have f: "fetchCurrentWarnings sample_platform textDownNet 0 1716750000000 =
             Some \<lparr> features = Features [Some productFeature] \<rparr>"
    by (simp add: fetchCurrentWarnings_def textDownNet_def)
  have p: "parseTornadoWarnings sample_platform
             (Some \<lparr> features = Features [Some productFeature] \<rparr>) = Inr [productWarning]"
    by (simp add: parseTornadoWarnings_def toWarning_product)
       (simp add: isTornadoWarning_def productFeature_def getprop_def)
  have s: "sendWarning textDownNet n productWarning = (Inl (Error ''text service down''), n + 1)"
    for n
    by (simp add: sendWarning_def fetchRawText_def productWarning_def textDownNet_def)
  show ?thesis
    using monitor_fetched [OF f p, of 1716750000000 "trackedState []"]
    by (simp add: newAgainst_def trackedState_def s iso_sample)
qed

section \<open>The scheduled tornado-warning cycle: deduplication\<close>

text \<open>
  Claim C1, as stated, fails, in two ways.

  Warning A is in the feed of the ticks of 19:00:00 and 19:00:10, and the dispatch of
  the first cycle is still awaited when the feed request of the second is answered (the
  cycles end at 19:00:12 and 19:00:40): the second cycle compares its extraction with a
  tracked list that the first has not assigned yet, and dispatches A again, although A
  is in the list that the preceding cycle assigns. When the first cycle ends at 19:00:02,
  before the second begins, the second dispatches nothing.

  Warning T is new and has a raw-text URL, and the raw-text service rejects the request:
  the dispatch of T ends in the handler with the error of the text fetch, and nothing is
  posted to the webhook, which would have accepted any POST.
\<close>

theorem dedup_counterexample:
  "runEvents sample_platform (idle (trackedState []))
     [Begin (sample_net (feedOf [''A'']) [] (\<lambda>n. False)) 1716750000000 1716750000000,
      Begin (sample_net (feedOf [''A'']) [] (\<lambda>n. False)) 1716750010000 1716750010000,
      End 0 1716750012000, End 0 1716750040000] =
     \<lparr> vars = \<lparr> tornadoWarnings = [bareWarning ''A''],
                lastUpdate = Some ''2024-05-26T19:00:40.000Z'', lastMdIds = {} \<rparr>,
       inflight = [],
       sendLogs = [[(bareWarning ''A'', Sent)], [(bareWarning ''A'', Sent)]] \<rparr> \<and>
   runEvents sample_platform (idle (trackedState []))
     [Begin (sample_net (feedOf [''A'']) [] (\<lambda>n. False)) 1716750000000 1716750000000,
      End 0 1716750002000,
      Begin (sample_net (feedOf [''A'']) [] (\<lambda>n. False)) 1716750010000 1716750010000] =
     \<lparr> vars = \<lparr> tornadoWarnings = [bareWarning ''A''],
                lastUpdate = Some ''2024-05-26T19:00:10.000Z'', lastMdIds = {} \<rparr>,
       inflight = [],
       sendLogs = [[(bareWarning ''A'', Sent)], []] \<rparr> \<and>
   monitorTornadoWarnings sample_platform textDownNet 1716750000000 1716750000000
     (trackedState []) =
     Inr (\<lparr> tornadoWarnings = [productWarning],
             lastUpdate = Some ''2024-05-26T19:00:00.000Z'', lastMdIds = {} \<rparr>,
          [(productWarning, Failed ''text service down'')]) \<and>
   (\<forall>n url f. post_form textDownNet n url f = Inr ())"
proof -
  have a: "newAgainst [] [bareWarning ''A''] = [bareWarning ''A'']"
    by (simp add: newAgainst_def)
  have b: "newAgainst [bareWarning ''A''] [bareWarning ''A''] = []"
    by (simp add: newAgainst_def)
  have p: "\<forall>n url f. post_form textDownNet n url f = Inr ()"
    by (simp add: textDownNet_def)
  show ?thesis
    using monitor_text_down p
    by (simp add: runEvents_def begin_sample idle_def trackedState_def a b send_bare
          endCycle_def iso_sample)
qed

text \<open>
  Claim C1, amended. In a scheduled cycle whose feed fetch and extraction succeed, a
  dispatch is started for an extracted event if and only if its identifier is not in
  the tracked list as the cycle reads it once its feed is extracted, the dispatches
  being made in feed order. A started dispatch posts the event to the webhook, with the
  composed message, when its text and image fetches have returned, and its log entry is
  the result of that POST; when one of the two fetches fails, the entry is that failure.
  When the cycle ends, the tracked list is replaced wholesale by the cycle's extraction.
  In a run in which the cycles do not overlap, the list that the cycle reads is the one
  that the run of the cycles before it has left.
\<close>

theorem dedup_against_tracked_list:
  assumes "fetchCurrentWarnings pl net 0 now = Some d"
      and "parseTornadoWarnings pl (Some d) = Inr current"
  shows "beginCycle pl net now st =
           Inr (Some (current, dispatchNew net 1 (newAgainst (tornadoWarnings st) current))) \<and>
         monitorTornadoWarnings pl net now later st =
           Inr (st \<lparr> tornadoWarnings := current, lastUpdate := Some (toISOString pl later) \<rparr>,
                dispatchNew net 1 (newAgainst (tornadoWarnings st) current)) \<and>
         tornadoWarnings (endCycle pl later current st') = current \<and>
         map fst (dispatchNew net 1 (newAgainst (tornadoWarnings st) current)) =
           filter (\<lambda>w. wid w \<notin> wid ` set (tornadoWarnings st)) current \<and>
         (\<forall>pre w rest.
            newAgainst (tornadoWarnings st) current = pre @ w # rest \<longrightarrow>
            dispatchNew net 1 (newAgainst (tornadoWarnings st) current) ! length pre =
              (w, outcomeOf (fst (sendWarning net (callsAfter net 1 pre) w)))) \<and>
         (\<forall>k w textData k1 imageBuffer k2.
            fetchRawText net k w = (Inr textData, k1) \<and>
            fetchPlotImage net k1 w = (Inr imageBuffer, k2) \<longrightarrow>
            fst (sendWarning net k w) =
              post_form net k2 TORNADO_WEBHOOK
                \<lparr> content = warningContent w textData,
                  file_part = map_option (\<lambda>b. (b, ''plot.png'')) imageBuffer \<rparr>) \<and>
         (\<forall>k w err k1.
            fetchRawText net k w = (Inl err, k1) \<longrightarrow> fst (sendWarning net k w) = Inl err) \<and>
         (\<forall>k w textData k1 err k2.
            fetchRawText net k w = (Inr textData, k1) \<and>
            fetchPlotImage net k1 w = (Inl err, k2) \<longrightarrow>
            fst (sendWarning net k w) = Inl err) \<and>
         sendLogs (runEvents pl (idle st0) (oneAfterAnother (ticks @ [(net, now, later)]))) =
           sendLogs (runEvents pl (idle st0) (oneAfterAnother ticks)) @
           [dispatchNew net 1
              (newAgainst
                 (tornadoWarnings (vars (runEvents pl (idle st0) (oneAfterAnother ticks))))
                 current)]"
proof -
  have entry: "\<forall>pre w rest.
            newAgainst (tornadoWarnings st) current = pre @ w # rest \<longrightarrow>
            dispatchNew net 1 (newAgainst (tornadoWarnings st) current) ! length pre =
              (w, outcomeOf (fst (sendWarning net (callsAfter net 1 pre) w)))"
    by (simp add: dispatchNew_entry del: dispatchNew.simps)
  have started: "map fst (dispatchNew net 1 (newAgainst (tornadoWarnings st) current)) =
           filter (\<lambda>w. wid w \<notin> wid ` set (tornadoWarnings st)) current"
    by (simp add: dispatchNew_attempts newAgainst_def)
  have assigned: "tornadoWarnings (endCycle pl later current st') = current"
    by (simp add: endCycle_def)
  show ?thesis
    using begin_fetched [OF assms, of st] monitor_fetched [OF assms, of later st]
      no_overlap_next [OF assms, of st0 ticks later] entry started assigned
      sendWarning_posts [of net _ _ _ _ _ _] sendWarning_text_failed [of net]
      sendWarning_image_failed [of net]
    by (intro conjI allI impI) (simp_all del: dispatchNew.simps)
qed

text \<open>
  The tracked list is A, B and the feed has B and C: only C is dispatched, by a POST to
  the webhook that is accepted, and the tracked list becomes B, C. As a run of two
  cycles, one after the other, from an empty list: the first dispatches A and B, the
  second C.
\<close>

theorem dedup_against_tracked_list_witness:
  "fetchCurrentWarnings sample_platform (sample_net (feedOf [''B'', ''C'']) [] (\<lambda>n. False)) 0
     1716750000000 =
     Some \<lparr> features = Features [Some (bareFeature ''B''), Some (bareFeature ''C'')] \<rparr> \<and>
   parseTornadoWarnings sample_platform
     (Some \<lparr> features = Features [Some (bareFeature ''B''), Some (bareFeature ''C'')] \<rparr>) =
     Inr [bareWarning ''B'', bareWarning ''C''] \<and>
   monitorTornadoWarnings sample_platform (sample_net (feedOf [''B'', ''C'']) [] (\<lambda>n. False))
     1716750000000 1716750000000 (trackedState [''A'', ''B'']) =
     Inr (\<lparr> tornadoWarnings = [bareWarning ''B'', bareWarning ''C''],
             lastUpdate = Some ''2024-05-26T19:00:00.000Z'', lastMdIds = {} \<rparr>,
          [(bareWarning ''C'', Sent)]) \<and>
   fst (sendWarning (sample_net (feedOf [''B'', ''C'']) [] (\<lambda>n. False)) 1 (bareWarning ''C'')) =
     post_form (sample_net (feedOf [''B'', ''C'']) [] (\<lambda>n. False)) 1 TORNADO_WEBHOOK
       \<lparr> content = warningContent (bareWarning ''C'') [], file_part = None \<rparr> \<and>
   post_form (sample_net (feedOf [''B'', ''C'']) [] (\<lambda>n. False)) 1 TORNADO_WEBHOOK
       \<lparr> content = warningContent (bareWarning ''C'') [], file_part = None \<rparr> = Inr () \<and>
   sendLogs (runEvents sample_platform (idle (trackedState []))
     (oneAfterAnother
        [(sample_net (feedOf [''A'', ''B'']) [] (\<lambda>n. False), 1716750000000, 1716750000000),
         (sample_net (feedOf [''B'', ''C'']) [] (\<lambda>n. False), 1716750000000, 1716750000000)])) =
     [[(bareWarning ''A'', Sent), (bareWarning ''B'', Sent)], [(bareWarning ''C'', Sent)]]"
proof -
  let ?ab = "sample_net (feedOf [''A'', ''B'']) [] (\<lambda>n. False)"
  let ?bc = "sample_net (feedOf [''B'', ''C'']) [] (\<lambda>n. False)"
  let ?d = "\<lparr> features = Features [Some (bareFeature ''B''), Some (bareFeature ''C'')] \<rparr>"
  have f: "fetchCurrentWarnings sample_platform ?bc 0 1716750000000 = Some ?d"
    by (simp add: fetch_sample feedOf_def)
  have p: "parseTornadoWarnings sample_platform (Some ?d) =
             Inr [bareWarning ''B'', bareWarning ''C'']"
    using parse_feedOf [of sample_platform "[''B'', ''C'']"] by (simp add: feedOf_def)
  note t = dedup_against_tracked_list
             [OF f p, of "trackedState [''A'', ''B'']" 1716750000000 _ "trackedState []"
                 "[(?ab, 1716750000000, 1716750000000)]"]
  have n1: "newAgainst [bareWarning ''A'', bareWarning ''B'']
              [bareWarning ''B'', bareWarning ''C''] = [bareWarning ''C'']"
    by (simp add: newAgainst_def wid_bare)
  have n0: "newAgainst [] [bareWarning ''A'', bareWarning ''B''] =
              [bareWarning ''A'', bareWarning ''B'']"
    by (simp add: newAgainst_def)
  have first: "runEvents sample_platform (idle (trackedState []))
                 (oneAfterAnother [(?ab, 1716750000000, 1716750000000)]) =
               \<lparr> vars = \<lparr> tornadoWarnings = [bareWarning ''A'', bareWarning ''B''],
                          lastUpdate = Some ''2024-05-26T19:00:00.000Z'', lastMdIds = {} \<rparr>,
                 inflight = [],
                 sendLogs = [[(bareWarning ''A'', Sent), (bareWarning ''B'', Sent)]] \<rparr>"
    by (simp add: oneAfterAnother_def runEvents_def begin_sample idle_def trackedState_def n0
          send_bare endCycle_def iso_sample)
  have m: "monitorTornadoWarnings sample_platform ?bc 1716750000000 1716750000000
             (trackedState [''A'', ''B'']) =
           Inr (\<lparr> tornadoWarnings = [bareWarning ''B'', bareWarning ''C''],
                   lastUpdate = Some ''2024-05-26T19:00:00.000Z'', lastMdIds = {} \<rparr>,
                [(bareWarning ''C'', Sent)])"
    using t by (simp add: trackedState_def n1 send_bare iso_sample)
  have s: "fst (sendWarning ?bc 1 (bareWarning ''C'')) =
             post_form ?bc 1 TORNADO_WEBHOOK
               \<lparr> content = warningContent (bareWarning ''C'') [], file_part = None \<rparr>"
    using t by (simp add: fetchRawText_def fetchPlotImage_def bareWarning_def)
  have l: "sendLogs (runEvents sample_platform (idle (trackedState []))
             (oneAfterAnother [(?ab, 1716750000000, 1716750000000),
                               (?bc, 1716750000000, 1716750000000)])) =
           [[(bareWarning ''A'', Sent), (bareWarning ''B'', Sent)], [(bareWarning ''C'', Sent)]]"
    using t by (simp add: first n1 send_bare)
  from f p m s l show ?thesis by (simp add: post_sample)
qed

section \<open>The scheduled tornado-warning cycle: the tracked list\<close>



lemma parse_null_entry:
  "parseTornadoWarnings sample_platform
     (Some \<lparr> features = Features [Some (bareFeature ''A''), None] \<rparr>) =
     Inl (TypeError ''Cannot read properties of null (reading 'properties')'')"
  by (simp add: parseTornadoWarnings_def isTornado_bare)




section \<open>Dispatch: failures and counts\<close>

lemma simulateLoop_counts:
  "simulateLoop net n ws s f =
     (s + length (filter (\<lambda>(w, outcome). outcome = Sent) (dispatchNew net n ws)),
      f + length (filter (\<lambda>(w, outcome). outcome \<noteq> Sent) (dispatchNew net n ws)))"
  by (induction ws arbitrary: n s f) (auto split: prod.splits sum.splits)

lemma simulateLoop_total:
  "fst (simulateLoop net n ws 0 0) + snd (simulateLoop net n ws 0 0) = length ws"
proof -
  have "length (filter (\<lambda>(w, outcome). outcome = Sent) (dispatchNew net n ws)) +
        length (filter (\<lambda>(w, outcome). outcome \<noteq> Sent) (dispatchNew net n ws)) =
        length (dispatchNew net n ws)"
    using sum_length_filter_compl [of "\<lambda>(w, outcome). outcome = Sent" "dispatchNew net n ws"]
    by (simp add: case_prod_unfold)
  then show ?thesis by (simp add: simulateLoop_counts length_dispatchNew)
qed

lemma simulate_route_counts:
  assumes "s \<noteq> []" and "e \<noteq> []"
      and "warningsOf pl (fetchWarningsForTimeRange pl net 0 s e) = Inr ws"
  shows "postSimulateTornadoWarnings pl net (Some s) (Some e) =
           \<lparr> http_status = 200,
             body = SimulateBody
                      (length (filter (\<lambda>(w, outcome). outcome = Sent) (dispatchNew net 1 ws)))
                      (length (filter (\<lambda>(w, outcome). outcome \<noteq> Sent) (dispatchNew net 1 ws)))
                      (length ws) \<rparr>"
  using assms by (simp add: postSimulateTornadoWarnings_def simulateLoop_counts)

text \<open>
  The two tornado loops. In the scheduled cycle and in the simulation route alike, the
  \<^verbatim>\<open>try\<close> block is inside the loop: a dispatch is started for every warning handed to
  the loop, in order, and each warning's own result decides what is logged for it,
  whether the text fetch, the image fetch or the POST has failed. The simulation route
  counts: its \<^verbatim>\<open>sent\<close> and \<^verbatim>\<open>failed\<close> are the numbers of warnings whose dispatch
  succeeded and failed, and they add up to the number of warnings. The scheduled cycle
  runs the loop over its new warnings and logs each outcome; it keeps no count.
\<close>

lemma tornado_loops_survive_failures:
  "map fst (dispatchNew net n ws) = ws \<and>
   (\<forall>pre w rest. ws = pre @ w # rest \<longrightarrow>
      dispatchNew net n ws ! length pre =
        (w, outcomeOf (fst (sendWarning net (callsAfter net n pre) w)))) \<and>
   simulateLoop net n ws 0 0 =
     (length (filter (\<lambda>(w, outcome). outcome = Sent) (dispatchNew net n ws)),
      length (filter (\<lambda>(w, outcome). outcome \<noteq> Sent) (dispatchNew net n ws))) \<and>
   fst (simulateLoop net n ws 0 0) + snd (simulateLoop net n ws 0 0) = length ws"
  using dispatchNew_attempts [of net n ws] simulateLoop_counts [of net n ws 0 0]
    simulateLoop_total [of net n ws]
  by (simp add: dispatchNew_entry del: dispatchNew.simps)

lemma fetchRange_sample:
  "fetchWarningsForTimeRange sample_platform (sample_net data items fails) n
     ''2024-05-26'' ''2024-05-26T19:00:00Z'' = data"
  using timestamp_accepted_examples
  by (simp add: fetchWarningsForTimeRange_def sample_net_def Let_def)

lemma send_discussion_sample:
  "sendDiscussion (sample_net data items fails) n (discussion g) =
     (if fails n then Inl (Error ''Network Error'') else Inr (), n + 1)"
  by (simp add: sendDiscussion_def itemImageUrl_def discussion_def sample_net_def)

lemma guid_discussion:
  "itemGuid (discussion g) = (if g \<noteq> [] then g else ''https://www.spc.noaa.gov/products/md/'')"
  by (simp add: itemGuid_def discussion_def)

lemma rss_sample: "get_rss_items (sample_net data items fails) n url = Inr (Some items)"
  by (simp add: sample_net_def)

lemma failing_cycle:
  "monitorMesoscaleDiscussions failingTick (trackedState []) =
     (\<lparr> tornadoWarnings = [], lastUpdate = None, lastMdIds = {''0001''} \<rparr>,
      \<lparr> seen = {''0001''}, started = [''0001''], sent_mds = [],
        caught = Some (Error ''Network Error'') \<rparr>)"
  by (simp add: monitorMesoscaleDiscussions_def failingTick_def rss_sample guid_discussion
        Let_def send_discussion_sample trackedState_def)

text \<open>
  Claim C2. The claim holds of the two tornado loops
  (\<open>tornado_loops_survive_failures\<close>) and fails for the discussion loop, whose
  \<^verbatim>\<open>try\<close> block is around the loop and not inside it.

  Two unseen discussions arrive in one cycle and the POST of the first (call 1, after
  the RSS download) is rejected: the single \<^verbatim>\<open>catch\<close> ends the cycle, the second
  discussion is neither dispatched nor marked as seen, and no count is kept. On the same
  pattern of failure, two new warnings of which the first POST is rejected, the scheduled
  tornado cycle logs the failure of A and sends B, and the simulation route answers with
  one success and one failure out of two.
\<close>

theorem discussion_failure_ends_cycle:
  "monitorMesoscaleDiscussions
     (sample_net None [discussion ''0001'', discussion ''0002''] (\<lambda>n. n = 1))
     (trackedState []) =
     (\<lparr> tornadoWarnings = [], lastUpdate = None, lastMdIds = {''0001''} \<rparr>,
      \<lparr> seen = {''0001''}, started = [''0001''], sent_mds = [],
        caught = Some (Error ''Network Error'') \<rparr>) \<and>
   monitorTornadoWarnings sample_platform
     (sample_net (feedOf [''A'', ''B'']) [] (\<lambda>n. n = 1)) 1716750000000 1716750000000
     (trackedState []) =
     Inr (\<lparr> tornadoWarnings = [bareWarning ''A'', bareWarning ''B''],
             lastUpdate = Some ''2024-05-26T19:00:00.000Z'', lastMdIds = {} \<rparr>,
          [(bareWarning ''A'', Failed ''Network Error''), (bareWarning ''B'', Sent)]) \<and>
   postSimulateTornadoWarnings sample_platform
     (sample_net (feedOf [''A'', ''B'']) [] (\<lambda>n. n = 1))
     (Some ''2024-05-26'') (Some ''2024-05-26T19:00:00Z'') =
     \<lparr> http_status = 200, body = SimulateBody 1 1 2 \<rparr>"
proof -
  let ?net = "sample_net (feedOf [''A'', ''B'']) [] (\<lambda>n. n = 1)"
  have n0: "newAgainst [] [bareWarning ''A'', bareWarning ''B''] =
              [bareWarning ''A'', bareWarning ''B'']"
    by (simp add: newAgainst_def)
  have m: "monitorTornadoWarnings sample_platform ?net 1716750000000 1716750000000
     (trackedState []) =
     Inr (\<lparr> tornadoWarnings = [bareWarning ''A'', bareWarning ''B''],
             lastUpdate = Some ''2024-05-26T19:00:00.000Z'', lastMdIds = {} \<rparr>,
          [(bareWarning ''A'', Failed ''Network Error''), (bareWarning ''B'', Sent)])"
    by (simp add: monitor_sample trackedState_def n0 send_bare)
  have r: "postSimulateTornadoWarnings sample_platform ?net
     (Some ''2024-05-26'') (Some ''2024-05-26T19:00:00Z'') =
     \<lparr> http_status = 200, body = SimulateBody 1 1 2 \<rparr>"
    using parse_feedOf [of sample_platform "[''A'', ''B'']"]
    by (simp add: postSimulateTornadoWarnings_def fetchRange_sample warningsOf_def feedOf_def
          send_bare)
  from m r failing_cycle show ?thesis by (simp add: failingTick_def)
qed

section \<open>The message body\<close>

text \<open>
  Claim C8. When the text fetch and the image fetch of a dispatch have returned, the
  form that is posted has as its content the header with the warning's summary fields,
  then the first 1800 characters of the fetched text (all of it when it is no longer),
  then the marker \<^verbatim>\<open>...\<close> exactly when the text is longer than 1800 characters. The
  scheduled cycle and the simulation route build the message with the same expression.
\<close>

theorem message_text_budget:
  assumes "fetchRawText net n w = (Inr textData, n1)"
      and "fetchPlotImage net n1 w = (Inr imageBuffer, n2)"
  shows "fst (sendWarning net n w) =
           post_form net n2 TORNADO_WEBHOOK
             \<lparr> content = warningHeader w @ take 1800 textData @
                           (if 1800 < length textData then ''...'' else []),
               file_part = map_option (\<lambda>b. (b, ''plot.png'')) imageBuffer \<rparr> \<and>
         length (take 1800 textData) \<le> 1800"
  using assms
  by (simp add: sendWarning_def warningContent_def rawTextPart_def substring0_def)

text \<open>A product text of 1801 characters: 1800 of them are posted, followed by the
  marker.\<close>

theorem message_text_budget_witness:
  "fetchRawText longTextNet 0 textWarning = (Inr (replicate 1801 CHR ''x''), 1) \<and>
   fetchPlotImage longTextNet 1 textWarning = (Inr None, 1) \<and>
   fst (sendWarning longTextNet 0 textWarning) =
     post_form longTextNet 1 TORNADO_WEBHOOK
       \<lparr> content = warningHeader textWarning @ replicate 1800 CHR ''x'' @ ''...'',
         file_part = None \<rparr>"
proof -
  have t: "fetchRawText longTextNet 0 textWarning = (Inr (replicate 1801 CHR ''x''), 1)"
    by (simp add: fetchRawText_def textWarning_def longTextNet_def)
  have i: "fetchPlotImage longTextNet 1 textWarning = (Inr None, 1)"
    by (simp add: fetchPlotImage_def textWarning_def bareWarning_def)
  from message_text_budget [OF t i] t i show ?thesis by simp
qed

section \<open>The routes that take a time range\<close>

lemma fetchRange_invalid:
  assumes "(\<exists>err. validateAndFormatTimestamp pl s = Inl err) \<or>
           (\<exists>err. validateAndFormatTimestamp pl e = Inl err)"
  shows "fetchWarningsForTimeRange pl net n s e = None"
  using assms by (auto simp: fetchWarningsForTimeRange_def split: sum.splits)

lemma validate_yesterday:
  "validateAndFormatTimestamp sample_platform ''yesterday'' =
     Inl (Error ''Invalid timestamp format: yesterday'')"
  by (simp add: validateAndFormatTimestamp_def str_includes_def sample_platform_def
        sample_dates_def)

text \<open>
  What the two routes do with a start or an end that is present and is no valid instant,
  on every platform and network: the error of the normaliser is caught (and logged)
  inside \<^verbatim>\<open>fetchWarningsForTimeRange\<close>, which returns \<^verbatim>\<open>null\<close>, and the routes treat
  \<^verbatim>\<open>null\<close> as empty data.
\<close>

lemma invalid_range_is_empty_result:
  assumes "s \<noteq> []" and "e \<noteq> []"
      and "(\<exists>err. validateAndFormatTimestamp pl s = Inl err) \<or>
           (\<exists>err. validateAndFormatTimestamp pl e = Inl err)"
  shows "getTornadoWarningsRange pl net (Some s) (Some e) =
           \<lparr> http_status = 200, body = RangeBody 0 (s, e) [] \<rparr> \<and>
         postSimulateTornadoWarnings pl net (Some s) (Some e) =
           \<lparr> http_status = 200, body = SimulateBody 0 0 0 \<rparr>"
  using assms(1,2) fetchRange_invalid [OF assms(3)]
  by (simp add: getTornadoWarningsRange_def postSimulateTornadoWarnings_def warningsOf_def)

text \<open>
  Claim C6. The routes have a handler that answers an exception with status 500 and the
  exception's message: an extraction that throws reaches it. The invalid-timestamp error
  never does. The range route is asked for the window from \<^verbatim>\<open>yesterday\<close>, which is no
  valid instant, to \<^verbatim>\<open>2024-05-26\<close>: the normaliser throws
  \<^verbatim>\<open>Invalid timestamp format: yesterday\<close>, the error is swallowed inside
  \<^verbatim>\<open>fetchWarningsForTimeRange\<close>, and the caller gets status 200 with an empty list of
  warnings; the simulation route answers status 200 with the counts 0, 0, 0.
\<close>

theorem invalid_timestamp_answered_as_empty:
  "validateAndFormatTimestamp sample_platform ''yesterday'' =
     Inl (Error ''Invalid timestamp format: yesterday'') \<and>
   getTornadoWarningsRange sample_platform (sample_net (feedOf [''A'']) [] (\<lambda>n. False))
     (Some ''yesterday'') (Some ''2024-05-26'') =
     \<lparr> http_status = 200, body = RangeBody 0 (''yesterday'', ''2024-05-26'') [] \<rparr> \<and>
   postSimulateTornadoWarnings sample_platform (sample_net (feedOf [''A'']) [] (\<lambda>n. False))
     (Some ''yesterday'') (Some ''2024-05-26'') =
     \<lparr> http_status = 200, body = SimulateBody 0 0 0 \<rparr> \<and>
   getTornadoWarningsRange sample_platform (sample_net nullEntryFeed [] (\<lambda>n. False))
     (Some ''2024-05-26'') (Some ''2024-05-26T19:00:00Z'') =
     \<lparr> http_status = 500,
       body = ErrorBody ''Cannot read properties of null (reading 'properties')'' \<rparr>"
proof -
  have "getTornadoWarningsRange sample_platform (sample_net nullEntryFeed [] (\<lambda>n. False))
     (Some ''2024-05-26'') (Some ''2024-05-26T19:00:00Z'') =
     \<lparr> http_status = 500,
       body = ErrorBody ''Cannot read properties of null (reading 'properties')'' \<rparr>"
    using parse_null_entry
    by (simp add: getTornadoWarningsRange_def fetchRange_sample warningsOf_def nullEntryFeed_def)
  then show ?thesis
    by (simp add: validate_yesterday getTornadoWarningsRange_def
          postSimulateTornadoWarnings_def warningsOf_def fetchWarningsForTimeRange_def)
qed

section \<open>The mesoscale-discussion cycle\<close>

lemma mdLoop_seen:
  "seen (mdLoop net n items ids) = ids \<union> set (started (mdLoop net n items ids))"
  by (induction items arbitrary: n ids) (auto simp: Let_def split: prod.splits sum.splits)

lemma mdLoop_started_fresh: "set (started (mdLoop net n items ids)) \<inter> ids = {}"
proof (induction items arbitrary: n ids)
  case Nil
  then show ?case by simp
next
  case (Cons item items)
  show ?case
  proof (cases "itemGuid item \<in> ids")
    case True
    then show ?thesis using Cons.IH [of n ids] by simp
  next
    case False
    obtain r n' where s: "sendDiscussion net n item = (r, n')" by force
    show ?thesis
    proof (cases r)
      case (Inl e)
      with s False show ?thesis by (simp add: Let_def)
    next
      case (Inr u)
      with s False Cons.IH [of n' "insert (itemGuid item) ids"] show ?thesis
        by (auto simp: Let_def)
    qed
  qed
qed

lemma mdLoop_sent:
  "(caught (mdLoop net n items ids) = None \<longrightarrow>
      started (mdLoop net n items ids) = sent_mds (mdLoop net n items ids)) \<and>
   (caught (mdLoop net n items ids) \<noteq> None \<longrightarrow>
      (\<exists>g. started (mdLoop net n items ids) = sent_mds (mdLoop net n items ids) @ [g]))"
  by (induction items arbitrary: n ids) (auto simp: Let_def split: prod.splits sum.splits)

lemma mdLoop_stops:
  "caught (mdLoop net n items ids) \<noteq> None \<Longrightarrow>
   mdLoop net n (items @ rest) ids = mdLoop net n items ids"
  by (induction items arbitrary: n ids) (auto simp: Let_def split: prod.splits sum.splits)

lemma monitorMd_state:
  "lastMdIds (fst (monitorMesoscaleDiscussions net st)) =
     lastMdIds st \<union> set (started (snd (monitorMesoscaleDiscussions net st)))"
  by (auto simp: monitorMesoscaleDiscussions_def Let_def mdLoop_seen split: sum.splits)

lemma monitorMd_fresh:
  "set (started (snd (monitorMesoscaleDiscussions net st))) \<inter> lastMdIds st = {}"
proof (cases "get_rss_items net 0 RSS_URL")
  case (Inl e)
  then show ?thesis by (simp add: monitorMesoscaleDiscussions_def)
next
  case (Inr x)
  then show ?thesis
    using mdLoop_started_fresh
            [of net 1 "case x of None \<Rightarrow> [] | Some xs \<Rightarrow> xs" "lastMdIds st"]
    by (simp add: monitorMesoscaleDiscussions_def Let_def)
qed

lemma runDiscussions_never_again:
  "g \<in> lastMdIds st \<Longrightarrow> \<forall>r \<in> set (snd (runDiscussions st ticks)). g \<notin> set (started r)"
proof (induction ticks arbitrary: st)
  case Nil
  then show ?case by simp
next
  case (Cons net ticks)
  let ?c = "monitorMesoscaleDiscussions net st"
  have 1: "g \<notin> set (started (snd ?c))" using monitorMd_fresh [of net st] Cons.prems by auto
  have "g \<in> lastMdIds (fst ?c)" using Cons.prems by (simp add: monitorMd_state)
  from Cons.IH [OF this] 1 show ?case
    by (auto simp: split_beta Let_def)
qed

lemma healthy_cycle:
  "monitorMesoscaleDiscussions healthyTick
     \<lparr> tornadoWarnings = [], lastUpdate = None, lastMdIds = {''0001''} \<rparr> =
     (\<lparr> tornadoWarnings = [], lastUpdate = None, lastMdIds = {''0002'', ''0001''} \<rparr>,
      \<lparr> seen = {''0002'', ''0001''}, started = [''0002''], sent_mds = [''0002''],
        caught = None \<rparr>)"
  by (simp add: monitorMesoscaleDiscussions_def healthyTick_def rss_sample guid_discussion
        Let_def send_discussion_sample)

text \<open>
  Claim C9. In the discussion loop an item's identifier (its guid, or its link when
  the guid is empty) is put into the seen-set before its dispatch is tried, so after any
  cycle the seen-set is the old one together with the identifiers of all items whose
  dispatch was started, the failed one included. An item whose dispatch was started in a
  cycle, sent or failed, is therefore never started again in any later cycle of the
  process. When a dispatch fails, the failed item is the last one started in that
  cycle: the items that follow it in the feed are not processed, whatever they are.
\<close>

theorem failed_discussion_is_marked_seen:
  "seen (mdLoop net n items ids) = ids \<union> set (started (mdLoop net n items ids)) \<and>
   set (sent_mds (mdLoop net n items ids)) \<subseteq> set (started (mdLoop net n items ids)) \<and>
   (caught (mdLoop net n items ids) \<noteq> None \<longrightarrow>
      (\<exists>g. started (mdLoop net n items ids) = sent_mds (mdLoop net n items ids) @ [g]) \<and>
      mdLoop net n (items @ rest) ids = mdLoop net n items ids) \<and>
   lastMdIds (fst (monitorMesoscaleDiscussions net0 st)) =
     lastMdIds st \<union> set (started (snd (monitorMesoscaleDiscussions net0 st))) \<and>
   (\<forall>g \<in> set (started (snd (monitorMesoscaleDiscussions net0 st))).
      \<forall>r \<in> set (snd (runDiscussions (fst (monitorMesoscaleDiscussions net0 st)) ticks)).
        g \<notin> set (started r))"
proof -
  have a: "set (sent_mds (mdLoop net n items ids)) \<subseteq> set (started (mdLoop net n items ids))"
    using mdLoop_sent [of net n items ids]
    by (cases "caught (mdLoop net n items ids)") auto
  have b: "\<forall>g \<in> set (started (snd (monitorMesoscaleDiscussions net0 st))).
      \<forall>r \<in> set (snd (runDiscussions (fst (monitorMesoscaleDiscussions net0 st)) ticks)).
        g \<notin> set (started r)"
    using runDiscussions_never_again [of _ "fst (monitorMesoscaleDiscussions net0 st)" ticks]
    by (simp add: monitorMd_state)
  show ?thesis
    using a b mdLoop_seen [of net n items ids] mdLoop_sent [of net n items ids]
      mdLoop_stops [of net n items ids rest] monitorMd_state [of net0 st]
    by blast
qed

text \<open>
  Discussions 0001 and 0002 arrive together and the POST of 0001 is rejected: 0002 is
  not processed in that cycle. In the two cycles that follow, on a healthy network, 0002
  is dispatched once and 0001 never again.
\<close>

theorem failed_discussion_witness:
  "caught (mdLoop failingTick 1 [discussion ''0001''] {}) \<noteq> None \<and>
   mdLoop failingTick 1 ([discussion ''0001''] @ [discussion ''0002'']) {} =
     mdLoop failingTick 1 [discussion ''0001''] {} \<and>
   started (snd (monitorMesoscaleDiscussions failingTick (trackedState []))) = [''0001''] \<and>
   sent_mds (snd (monitorMesoscaleDiscussions failingTick (trackedState []))) = [] \<and>
   map started
     (snd (runDiscussions (fst (monitorMesoscaleDiscussions failingTick (trackedState [])))
             [healthyTick, healthyTick])) = [[''0002''], []]"
proof -
  have c: "caught (mdLoop failingTick 1 [discussion ''0001''] {}) \<noteq> None"
    by (simp add: failingTick_def guid_discussion send_discussion_sample Let_def)
  have r: "map started
     (snd (runDiscussions (fst (monitorMesoscaleDiscussions failingTick (trackedState [])))
             [healthyTick, healthyTick])) = [[''0002''], []]"
    apply (simp add: failing_cycle healthy_cycle)
    apply (simp add: monitorMesoscaleDiscussions_def healthyTick_def rss_sample
             guid_discussion Let_def)
    done
  from failed_discussion_is_marked_seen
         [of failingTick 1 "[discussion ''0001'']" "{}" "[discussion ''0002'']" failingTick
             "trackedState []" "[healthyTick, healthyTick]"] c
  have "mdLoop failingTick 1 ([discussion ''0001''] @ [discussion ''0002'']) {} =
          mdLoop failingTick 1 [discussion ''0001''] {}"
    by blast
  with c r show ?thesis by (simp add: failing_cycle)
qed

end
